theory Spec2Isabelle
  imports Main "HOL-Library.AList"
begin

section \<open>Clock arithmetic\<close>

text \<open>
  Instants are the integer millisecond counts that a JavaScript \<open>Date\<close> holds
  (\<open>getTime()\<close>).  The functions below are the ECMAScript time abstract operations that
  the \<open>Date\<close> setters are specified with.  Integer \<open>div\<close> and \<open>mod\<close> in HOL round
  towards minus infinity, as \<open>floor\<close> and the ECMAScript modulo do.

  The server's local time zone is a pair of offset functions, in milliseconds:
  \<open>utcOffset z t\<close> is the offset in force at the instant \<open>t\<close> (\<open>LocalTZA(t, true)\<close>), and
  \<open>localOffset z l\<close> the offset that the zone assigns to the wall-clock reading \<open>l\<close>
  (\<open>LocalTZA(l, false)\<close>).  A zone with daylight saving has offsets that change with
  their argument; nothing is assumed about the two functions.
\<close>

type_synonym instant = int

record zone =
  utcOffset :: "instant \<Rightarrow> int"
  localOffset :: "int \<Rightarrow> int"

definition utcZone :: zone where
  "utcZone = \<lparr>utcOffset = (\<lambda>t. 0), localOffset = (\<lambda>l. 0)\<rparr>"

definition msPerMinute :: int where "msPerMinute = 60000"
definition msPerHour :: int where "msPerHour = 3600000"
definition msPerDay :: int where "msPerDay = 86400000"

definition Day :: "int \<Rightarrow> int" where
  "Day t = t div msPerDay"

definition TimeWithinDay :: "int \<Rightarrow> int" where
  "TimeWithinDay t = t mod msPerDay"

definition HourFromTime :: "int \<Rightarrow> int" where
  "HourFromTime t = (t div msPerHour) mod 24"

definition MinFromTime :: "int \<Rightarrow> int" where
  "MinFromTime t = (t div msPerMinute) mod 60"

definition SecFromTime :: "int \<Rightarrow> int" where
  "SecFromTime t = (t div 1000) mod 60"

definition msFromTime :: "int \<Rightarrow> int" where
  "msFromTime t = t mod 1000"

definition MakeTime :: "int \<Rightarrow> int \<Rightarrow> int \<Rightarrow> int \<Rightarrow> int" where
  "MakeTime h m s ms = h * msPerHour + m * msPerMinute + s * 1000 + ms"

definition MakeDate :: "int \<Rightarrow> int \<Rightarrow> int" where
  "MakeDate day tm = day * msPerDay + tm"

definition LocalTime :: "zone \<Rightarrow> instant \<Rightarrow> int" where
  "LocalTime z t = t + utcOffset z t"

definition UTC :: "zone \<Rightarrow> int \<Rightarrow> int" where
  "UTC z l = l - localOffset z l"

text \<open>
  \<open>TimeClip\<close>: a \<open>Date\<close> holds at most 8.64e15 milliseconds either side of the epoch;
  a time value beyond that makes the date invalid, which is \<open>None\<close>.
\<close>

definition TimeClip :: "int \<Rightarrow> instant option" where
  "TimeClip t = (if \<bar>t\<bar> \<le> 8640000000000000 then Some t else None)"

text \<open>\<open>d.setHours(h, m, s, ms)\<close>, the call of the booking pre-save hook.\<close>

definition setHours4 :: "zone \<Rightarrow> instant \<Rightarrow> int \<Rightarrow> int \<Rightarrow> int \<Rightarrow> int \<Rightarrow> instant option" where
  "setHours4 z d h m s ms =
     (let t = LocalTime z d in TimeClip (UTC z (MakeDate (Day t) (MakeTime h m s ms))))"

text \<open>
  \<open>d.setDate(d.getDate() + n)\<close>, which is how moment's \<open>add(n, 'days')\<close> moves its date
  when \<open>n\<close> is not zero: the day number of the local time grows by \<open>n\<close> and the
  wall-clock time within the day is kept, so the result is \<open>n\<close> calendar days later
  in local time.
\<close>

definition addDays :: "zone \<Rightarrow> instant \<Rightarrow> int \<Rightarrow> instant option" where
  "addDays z d n =
     (if n = 0 then TimeClip d
      else (let t = LocalTime z d
            in TimeClip (UTC z (MakeDate (Day t + n) (TimeWithinDay t)))))"

text \<open>
  \<open>d.setHours(h)\<close>, \<open>d.setMinutes(m)\<close> and \<open>d.setSeconds(s)\<close> with one argument, which
  moment's setters \<open>.hours(h)\<close>, \<open>.minutes(m)\<close> and \<open>.seconds(s)\<close> call on the wrapped
  \<open>Date\<close>: the other components of the local time are kept.  They are used by the
  reminder scan only, where the result is compared with the bounds of the current day;
  a result beyond the range of \<open>Date\<close>, for which the comparison is false in JavaScript,
  lies outside those bounds as a number too, so these are not clipped.
\<close>

definition setHours1 :: "zone \<Rightarrow> instant \<Rightarrow> int \<Rightarrow> instant" where
  "setHours1 z d h =
     (let t = LocalTime z d
      in UTC z (MakeDate (Day t) (MakeTime h (MinFromTime t) (SecFromTime t) (msFromTime t))))"

definition setMinutes1 :: "zone \<Rightarrow> instant \<Rightarrow> int \<Rightarrow> instant" where
  "setMinutes1 z d m =
     (let t = LocalTime z d
      in UTC z (MakeDate (Day t) (MakeTime (HourFromTime t) m (SecFromTime t) (msFromTime t))))"

definition setSeconds1 :: "zone \<Rightarrow> instant \<Rightarrow> int \<Rightarrow> instant" where
  "setSeconds1 z d s =
     (let t = LocalTime z d
      in UTC z (MakeDate (Day t) (MakeTime (HourFromTime t) (MinFromTime t) s (msFromTime t))))"

text \<open>
  moment's \<open>startOf('day')\<close> and \<open>endOf('day')\<close>: local midnight of the instant's local
  day, and one millisecond before local midnight of the next day.  Both overwrite the
  moment they are called on and return it.
\<close>

definition startOfDay :: "zone \<Rightarrow> instant \<Rightarrow> instant" where
  "startOfDay z t = UTC z (MakeDate (Day (LocalTime z t)) 0)"

definition endOfDay :: "zone \<Rightarrow> instant \<Rightarrow> instant" where
  "endOfDay z t = UTC z (MakeDate (Day (LocalTime z t) + 1) 0) - 1"

section \<open>Parsing the time string\<close>

text \<open>
  \<open>parseInt(s)\<close> with no radix: leading white space is skipped, one sign is read, a
  \<open>0x\<close> or \<open>0X\<close> prefix selects radix 16, and the longest run of digits of the radix is
  read; with no digit the result is \<open>NaN\<close>, which is \<open>None\<close> here.  Strings are byte
  strings, so only the ASCII white space characters are recognised, and the value is the
  exact integer (a JavaScript number is exact below \<open>2^53\<close>).
\<close>

definition isWhiteSpace :: "char \<Rightarrow> bool" where
  "isWhiteSpace c = (let n = (of_char c :: nat) in n = 32 \<or> (9 \<le> n \<and> n \<le> 13))"

definition digitValue :: "char \<Rightarrow> nat" where
  "digitValue c =
     (let n = (of_char c :: nat)
      in if 48 \<le> n \<and> n \<le> 57 then n - 48
         else if 97 \<le> n \<and> n \<le> 122 then n - 87
         else if 65 \<le> n \<and> n \<le> 90 then n - 55
         else 36)"

definition isRadixDigit :: "nat \<Rightarrow> char \<Rightarrow> bool" where
  "isRadixDigit R c = (digitValue c < R)"

definition digitsValue :: "nat \<Rightarrow> string \<Rightarrow> int" where
  "digitsValue R ds = foldl (\<lambda>acc c. acc * int R + int (digitValue c)) 0 ds"

definition stripSign :: "string \<Rightarrow> int \<times> string" where
  "stripSign s =
     (case s of
        [] \<Rightarrow> (1, [])
      | c # r \<Rightarrow> if c = CHR ''-'' then (-1, r) else if c = CHR ''+'' then (1, r) else (1, s))"

definition stripPrefix :: "string \<Rightarrow> nat \<times> string" where
  "stripPrefix s =
     (if 2 \<le> length s \<and> (take 2 s = ''0x'' \<or> take 2 s = ''0X'') then (16, drop 2 s)
      else (10, s))"

definition parseInt :: "string \<Rightarrow> int option" where
  "parseInt s =
     (let (sign, s2) = stripSign (dropWhile isWhiteSpace s);
          (R, s3) = stripPrefix s2;
          ds = takeWhile (isRadixDigit R) s3
      in if ds = [] then None else Some (sign * digitsValue R ds))"

text \<open>
  \<open>s.split(':')\<close>: the pieces of \<open>s\<close> between colons, always at least one.
\<close>

fun split_colon :: "string \<Rightarrow> string list" where
  "split_colon [] = [[]]"
| "split_colon (c # cs) =
     (if c = CHR '':'' then [] # split_colon cs
      else (case split_colon cs of
              [] \<Rightarrow> [[c]]
            | p # ps \<Rightarrow> (c # p) # ps))"

text \<open>
  \<open>const [hours, minutes] = time.split(':')\<close> followed by \<open>parseInt\<close> of each: a missing
  second piece is \<open>undefined\<close>, whose \<open>parseInt\<close> is \<open>NaN\<close>.
\<close>

definition parseTime :: "string \<Rightarrow> int option \<times> int option" where
  "parseTime tm =
     (case split_colon tm of
        [] \<Rightarrow> (None, None)
      | [hours] \<Rightarrow> (parseInt hours, None)
      | hours # minutes # _ \<Rightarrow> (parseInt hours, parseInt minutes))"

section \<open>Data model\<close>

text \<open>
  The three mongoose schemas of the server as records.  A document is a pair of its
  \<open>_id\<close> and its fields; a collection is the list of its documents in insertion order.
  Fields that no handler of the model reads or writes (\<open>password\<close>, \<open>phone\<close>, the reset
  token, \<open>currentBookings\<close>, \<open>createdAt\<close>) are left out.
\<close>

datatype role = Admin | Client

datatype booking_status = Confirmed | Cancelled

record User =
  name :: string
  email :: string
  role :: role
  activeSessions :: int
  packageExpiry :: "instant option"

record Session =
  date :: instant
  time :: string
  exerciseType :: string
  maxCapacity :: int
  isActive :: bool
  createdBy :: nat
  trainer :: nat
  description :: string
  price :: int
  packagePrice :: int
  packageDuration :: int

record Booking =
  session :: nat
  client :: nat
  groupSize :: int
  status :: booking_status
  notesText :: string
  reminderSent :: bool
  canCancel :: bool
  cancellationDeadline :: "instant option"
  isPackageBooking :: bool
  packageId :: "string option"
  sessionNumber :: "int option"

type_synonym 'a doc = "nat \<times> 'a"

record db =
  users :: "User doc list"
  sessions :: "Session doc list"
  bookings :: "Booking doc list"
  nextId :: nat

text \<open>
  What a handler reads from outside the store: the clock (\<open>new Date()\<close>, \<open>moment()\<close>; one
  reading per request), the server's time zone offset, and the mail transport, which for
  each template and booking either accepts the message or rejects it.
\<close>

datatype template =
  BookingConfirmation | TrainerNotification | CancellationNotification | SessionReminder

datatype outcome = Delivered | Rejected | Threw

type_synonym attempt = "template \<times> nat \<times> outcome"

record env =
  now :: instant
  zone :: zone
  sendMail :: "template \<Rightarrow> nat \<Rightarrow> bool"

datatype error =
    MissingRequiredFields
  | SessionAlreadyExists
  | AdminsCannotBook
  | SessionNotAvailable
  | NotEnoughSpots
  | BookingNotFound
  | NotAuthorized
  | CancellationWindowClosed
  | ClientNotFound
  | ValidationFailed
  | TypeError

datatype response =
    Success
  | SuccessSession "Session doc"
  | SuccessBooking "Booking doc"
  | SuccessUser "User doc"
  | Failure nat error
  | RedirectLogin

type_synonym result = "response \<times> db \<times> attempt list"

section \<open>Store queries\<close>

definition findById :: "'a doc list \<Rightarrow> nat \<Rightarrow> 'a option" where
  "findById coll i = map_of coll i"

definition findByIdAndUpdate :: "nat \<Rightarrow> ('a \<Rightarrow> 'a) \<Rightarrow> 'a doc list \<Rightarrow> 'a doc list" where
  "findByIdAndUpdate i f coll = AList.map_entry i f coll"

definition findByIdAndDelete :: "nat \<Rightarrow> 'a doc list \<Rightarrow> 'a doc list" where
  "findByIdAndDelete i coll = AList.delete i coll"

text \<open>\<open>Booking.find({ session: sid, status: 'confirmed' })\<close>\<close>

definition confirmedBookings :: "db \<Rightarrow> nat \<Rightarrow> Booking doc list" where
  "confirmedBookings d sid =
     filter (\<lambda>b. session (snd b) = sid \<and> status (snd b) = Confirmed) (bookings d)"

text \<open>\<open>existingBookings.reduce((sum, b) => sum + b.groupSize, 0)\<close>\<close>

definition occupied :: "db \<Rightarrow> nat \<Rightarrow> int" where
  "occupied d sid = foldl (\<lambda>sum b. sum + groupSize (snd b)) 0 (confirmedBookings d sid)"

text \<open>\<open>Booking.deleteMany({ session: sid })\<close>\<close>

definition deleteMany :: "nat \<Rightarrow> Booking doc list \<Rightarrow> Booking doc list" where
  "deleteMany sid coll = filter (\<lambda>b. session (snd b) \<noteq> sid) coll"

text \<open>\<open>Session.findOne({ date: d, time: t })\<close>\<close>

definition findOne_date_time :: "db \<Rightarrow> instant \<Rightarrow> string \<Rightarrow> Session doc option" where
  "findOne_date_time d dt tm = find (\<lambda>s. date (snd s) = dt \<and> time (snd s) = tm) (sessions d)"

text \<open>
  The duplicate test in the specification's words, for comparison with the handler's
  query above: an active session exists at the same date and time.
\<close>

definition activeSessionAt :: "db \<Rightarrow> instant \<Rightarrow> string \<Rightarrow> bool" where
  "activeSessionAt d dt tm =
     (find (\<lambda>s. isActive (snd s) \<and> date (snd s) = dt \<and> time (snd s) = tm) (sessions d) \<noteq> None)"

section \<open>Mail service\<close>

text \<open>
  \<open>sendEmail\<close> catches every transport error and returns \<open>success: false\<close>; the exported
  senders build their template first, which throws a \<open>TypeError\<close> when a populated
  reference is \<open>null\<close>.  An attempt records the template, the booking and what happened.
\<close>

definition sendEmail :: "(template \<Rightarrow> nat \<Rightarrow> bool) \<Rightarrow> template \<Rightarrow> nat \<Rightarrow> attempt" where
  "sendEmail transport tpl bid = (tpl, bid, if transport tpl bid then Delivered else Rejected)"

definition sendBookingConfirmation ::
  "(template \<Rightarrow> nat \<Rightarrow> bool) \<Rightarrow> nat \<Rightarrow> User option \<Rightarrow> attempt list" where
  "sendBookingConfirmation transport bid trainerDoc =
     sendEmail transport BookingConfirmation bid #
     (case trainerDoc of
        None \<Rightarrow> [(TrainerNotification, bid, Threw)]
      | Some t \<Rightarrow> [sendEmail transport TrainerNotification bid])"

definition sendCancellationNotification ::
  "(template \<Rightarrow> nat \<Rightarrow> bool) \<Rightarrow> nat \<Rightarrow> Session option \<Rightarrow> User option \<Rightarrow> attempt" where
  "sendCancellationNotification transport bid sessionDoc clientDoc =
     (case clientDoc of
        None \<Rightarrow> (CancellationNotification, bid, Threw)
      | Some c \<Rightarrow>
          (case sessionDoc of
             None \<Rightarrow> (CancellationNotification, bid, Threw)
           | Some s \<Rightarrow> sendEmail transport CancellationNotification bid))"

section \<open>Booking pre-save hook\<close>

text \<open>
  The value of \<open>sessionDate\<close> after \<open>sessionDate.setHours(parseInt(hours),
  parseInt(minutes), 0, 0)\<close>; a \<open>NaN\<close> argument, or a result beyond the range of
  \<open>Date\<close>, makes it an invalid date, which is \<open>None\<close>.
\<close>

definition sessionDate :: "zone \<Rightarrow> Session \<Rightarrow> instant option" where
  "sessionDate z s =
     (case parseTime (time s) of
        (Some h, Some m) \<Rightarrow> setHours4 z (date s) h m 0 0
      | (Some h, None) \<Rightarrow> None
      | (None, m) \<Rightarrow> None)"

text \<open>
  \<open>BookingSchema.pre('save')\<close>: only a new document has its deadline computed, and only
  when its session is found.  The deadline is \<open>new Date(sessionDate.getTime() - 24 * 60 *
  60 * 1000)\<close>.  When \<open>sessionDate\<close> is invalid, or the deadline falls outside the range
  of \<open>Date\<close>, the deadline is an invalid date: the booking is left without a deadline,
  and \<open>canCancel\<close>, a comparison with the invalid date, is false.
\<close>

definition preSave :: "env \<Rightarrow> db \<Rightarrow> bool \<Rightarrow> Booking \<Rightarrow> Booking" where
  "preSave e d isNew b =
     (if isNew then
        (case findById (sessions d) (session b) of
           None \<Rightarrow> b
         | Some s \<Rightarrow>
             (case sessionDate (zone e) s of
                None \<Rightarrow> b\<lparr>cancellationDeadline := None, canCancel := False\<rparr>
              | Some start \<Rightarrow>
                  (case TimeClip (start - 24 * 60 * 60 * 1000) of
                     None \<Rightarrow> b\<lparr>cancellationDeadline := None, canCancel := False\<rparr>
                   | Some deadline \<Rightarrow>
                       b\<lparr>cancellationDeadline := Some deadline,
                         canCancel := (now e < deadline)\<rparr>)))
      else b)"

section \<open>Route handlers\<close>

text \<open>
  Each handler takes the environment, the store and the logged-in user
  (\<open>currentUser\<close>, which \<open>requireAuth\<close> has found to be set) and returns the response,
  the store afterwards and the mail attempts it made, in order.  \<open>requireAdmin\<close> is the
  first test of the admin routes.  Request fields are typed: ids are document ids, a
  date field is the instant \<open>new Date(date)\<close> denotes (\<open>None\<close> when the field is
  missing), \<open>isPackageBooking\<close> is a JSON boolean, and the numeric text fields are
  strings that the handler passes to \<open>parseInt\<close>.  The store never fails.

  The handlers are those of the current server.  The repository also holds an earlier
  version of the server, whose \<open>/api/session\<close> and \<open>/api/booking\<close> handlers have the
  same duplicate, role, availability and capacity tests in the same order, and the
  same schema validators, but no test for missing fields, no pre-save hook, no package
  counter and no mail.
\<close>

record session_request =
  req_date :: "instant option"
  req_time :: string
  req_exerciseType :: string
  req_maxCapacity :: string
  req_trainerId :: "nat option"
  req_description :: string

record booking_request =
  req_sessionId :: nat
  req_groupSize :: string
  req_isPackageBooking :: bool
  req_packageId :: "string option"
  req_sessionNumber :: "int option"

text \<open>The schema validators that \<open>save()\<close> runs: \<open>enum\<close>, \<open>min\<close> and \<open>max\<close>.\<close>

definition validSession :: "Session \<Rightarrow> bool" where
  "validSession s =
     ((exerciseType s = ''body-health'' \<or> exerciseType s = ''regular-training'')
      \<and> 1 \<le> maxCapacity s \<and> maxCapacity s \<le> 4)"

definition validBooking :: "Booking \<Rightarrow> bool" where
  "validBooking b = (1 \<le> groupSize b \<and> groupSize b \<le> 4)"

text \<open>\<open>app.post('/api/session')\<close>\<close>

definition post_api_session :: "env \<Rightarrow> db \<Rightarrow> User doc \<Rightarrow> session_request \<Rightarrow> result" where
  "post_api_session e d currentUser body =
     (if role (snd currentUser) \<noteq> Admin then (RedirectLogin, d, [])
      else if req_date body = None \<or> req_time body = [] \<or> req_exerciseType body = []
              \<or> req_maxCapacity body = [] \<or> req_trainerId body = None
      then (Failure 400 MissingRequiredFields, d, [])
      else
        (case req_date body of
           None \<Rightarrow> (Failure 400 MissingRequiredFields, d, [])
         | Some dt \<Rightarrow>
        (case req_trainerId body of
           None \<Rightarrow> (Failure 400 MissingRequiredFields, d, [])
         | Some trainerId \<Rightarrow>
        (case findOne_date_time d dt (req_time body) of
           Some existingSession \<Rightarrow> (Failure 400 SessionAlreadyExists, d, [])
         | None \<Rightarrow>
        (case parseInt (req_maxCapacity body) of
           None \<Rightarrow> (Failure 400 ValidationFailed, d, [])
         | Some cap \<Rightarrow>
             (let s = \<lparr>date = dt, time = req_time body,
                       exerciseType = req_exerciseType body, maxCapacity = cap,
                       isActive = True, createdBy = fst currentUser,
                       trainer = trainerId, description = req_description body,
                       price = 50, packagePrice = 200, packageDuration = 90\<rparr>
              in if validSession s
                 then (SuccessSession (nextId d, s),
                       d\<lparr>sessions := sessions d @ [(nextId d, s)],
                         nextId := Suc (nextId d)\<rparr>, [])
                 else (Failure 400 ValidationFailed, d, [])))))))"

text \<open>
  \<open>new Booking({...})\<close> with the schema defaults; \<open>x || null\<close> turns an empty string
  and the number zero into \<open>null\<close>.
\<close>

definition newBooking :: "nat \<Rightarrow> nat \<Rightarrow> int \<Rightarrow> booking_request \<Rightarrow> Booking" where
  "newBooking sid cid g body =
     \<lparr>session = sid, client = cid, groupSize = g, status = Confirmed, notesText = [],
      reminderSent = False, canCancel = True, cancellationDeadline = None,
      isPackageBooking = req_isPackageBooking body,
      packageId = (case req_packageId body of
                     None \<Rightarrow> None
                   | Some p \<Rightarrow> if p = [] then None else Some p),
      sessionNumber = (case req_sessionNumber body of
                         None \<Rightarrow> None
                       | Some n \<Rightarrow> if n = 0 then None else Some n)\<rparr>"

text \<open>
  \<open>currentBookings + parseInt(groupSize) > session.maxCapacity\<close>: with \<open>NaN\<close> the
  comparison is false.
\<close>

definition exceedsCapacity :: "int \<Rightarrow> int option \<Rightarrow> int \<Rightarrow> bool" where
  "exceedsCapacity currentBookings g cap =
     (case g of None \<Rightarrow> False | Some n \<Rightarrow> currentBookings + n > cap)"

text \<open>
  The package update of a booking: \<open>$inc: { activeSessions: 1 }\<close> and
  \<open>$set: { packageExpiry: moment().add(packageDuration, 'days').toDate() }\<close>, calendar
  days in the server's zone.  An expiry beyond the range of \<open>Date\<close> needs a clock or a
  duration hundreds of thousands of years away (the server creates every session with
  90 days); the model stores no expiry then, and the properties of the expiry are
  stated for an expiry in range.
\<close>

definition applyPackageBooking :: "env \<Rightarrow> Session \<Rightarrow> User \<Rightarrow> User" where
  "applyPackageBooking e s u =
     u\<lparr>activeSessions := activeSessions u + 1,
       packageExpiry := addDays (zone e) (now e) (packageDuration s)\<rparr>"

text \<open>\<open>app.post('/api/booking')\<close>\<close>

definition post_api_booking :: "env \<Rightarrow> db \<Rightarrow> User doc \<Rightarrow> booking_request \<Rightarrow> result" where
  "post_api_booking e d currentUser body =
     (if role (snd currentUser) = Admin then (Failure 403 AdminsCannotBook, d, [])
      else
        (case findById (sessions d) (req_sessionId body) of
           None \<Rightarrow> (Failure 400 SessionNotAvailable, d, [])
         | Some s \<Rightarrow>
             if \<not> isActive s then (Failure 400 SessionNotAvailable, d, [])
             else
               (let currentBookings = occupied d (req_sessionId body)
                in if exceedsCapacity currentBookings (parseInt (req_groupSize body)) (maxCapacity s)
                   then (Failure 400 NotEnoughSpots, d, [])
                   else
                     (case parseInt (req_groupSize body) of
                        None \<Rightarrow> (Failure 400 ValidationFailed, d, [])
                      | Some g \<Rightarrow>
                          (let b0 = newBooking (req_sessionId body) (fst currentUser) g body
                           in if \<not> validBooking b0 then (Failure 400 ValidationFailed, d, [])
                              else
                                (let booking = (nextId d, preSave e d True b0);
                                     d1 = d\<lparr>bookings := bookings d @ [booking],
                                            nextId := Suc (nextId d)\<rparr>;
                                     d2 = (if req_isPackageBooking body
                                           then d1\<lparr>users := findByIdAndUpdate (fst currentUser)
                                                     (applyPackageBooking e s) (users d1)\<rparr>
                                           else d1)
                                 in (SuccessBooking booking, d2,
                                     sendBookingConfirmation (sendMail e) (fst booking)
                                       (findById (users d) (createdBy s)))))))))"

text \<open>\<open>app.delete('/api/session/:id')\<close>\<close>

definition delete_api_session :: "env \<Rightarrow> db \<Rightarrow> User doc \<Rightarrow> nat \<Rightarrow> result" where
  "delete_api_session e d currentUser sid =
     (if role (snd currentUser) \<noteq> Admin then (RedirectLogin, d, [])
      else
        (let bs = confirmedBookings d sid;
             mails = map (\<lambda>b. sendCancellationNotification (sendMail e) (fst b)
                               (findById (sessions d) (session (snd b)))
                               (findById (users d) (client (snd b)))) bs;
             d1 = d\<lparr>bookings := deleteMany sid (bookings d)\<rparr>;
             d2 = d1\<lparr>sessions := findByIdAndDelete sid (sessions d1)\<rparr>
         in (Success, d2, mails)))"

text \<open>
  \<open>app.delete('/api/booking/:id')\<close>.  Reading \<open>booking.client._id\<close> of a client that
  \<open>populate\<close> did not find throws, and the outer \<open>catch\<close> answers 400.  The test of the
  deadline is \<open>now > cancellationDeadline\<close>, false for a missing deadline.
\<close>

definition pastDeadline :: "instant \<Rightarrow> instant option \<Rightarrow> bool" where
  "pastDeadline t deadline = (case deadline of None \<Rightarrow> False | Some dl \<Rightarrow> t > dl)"

definition applyPackageCancellation :: "User \<Rightarrow> User" where
  "applyPackageCancellation u = u\<lparr>activeSessions := activeSessions u - 1\<rparr>"

definition delete_api_booking :: "env \<Rightarrow> db \<Rightarrow> User doc \<Rightarrow> nat \<Rightarrow> result" where
  "delete_api_booking e d currentUser bid =
     (case findById (bookings d) bid of
        None \<Rightarrow> (Failure 404 BookingNotFound, d, [])
      | Some booking \<Rightarrow>
          (let clientDoc = findById (users d) (client booking);
               sessionDoc = findById (sessions d) (session booking)
           in if role (snd currentUser) \<noteq> Admin \<and> clientDoc = None
              then (Failure 400 TypeError, d, [])
              else if role (snd currentUser) \<noteq> Admin \<and> client booking \<noteq> fst currentUser
              then (Failure 403 NotAuthorized, d, [])
              else if role (snd currentUser) \<noteq> Admin
                      \<and> pastDeadline (now e) (cancellationDeadline booking)
              then (Failure 400 CancellationWindowClosed, d, [])
              else if isPackageBooking booking \<and> clientDoc = None
              then (Failure 400 TypeError, d, [])
              else
                (let d1 = (if isPackageBooking booking
                           then d\<lparr>users := findByIdAndUpdate (client booking)
                                    applyPackageCancellation (users d)\<rparr>
                           else d);
                     mail = sendCancellationNotification (sendMail e) bid sessionDoc clientDoc;
                     d2 = d1\<lparr>bookings := findByIdAndDelete bid (bookings d1)\<rparr>
                 in (Success, d2, [mail]))))"

text \<open>\<open>app.put('/api/booking/:id/notes')\<close>\<close>

definition put_api_booking_notes :: "env \<Rightarrow> db \<Rightarrow> User doc \<Rightarrow> nat \<Rightarrow> string \<Rightarrow> result" where
  "put_api_booking_notes e d currentUser bid newNotes =
     (if role (snd currentUser) \<noteq> Admin then (RedirectLogin, d, [])
      else
        (case findById (bookings d) bid of
           None \<Rightarrow> (Failure 404 BookingNotFound, d, [])
         | Some b \<Rightarrow>
             (SuccessBooking (bid, b\<lparr>notesText := newNotes\<rparr>),
              d\<lparr>bookings := findByIdAndUpdate bid (\<lambda>x. x\<lparr>notesText := newNotes\<rparr>) (bookings d)\<rparr>,
              [])))"

text \<open>\<open>app.post('/api/client/:id/add-package')\<close>\<close>

definition grantPackage :: "env \<Rightarrow> User \<Rightarrow> User" where
  "grantPackage e u =
     u\<lparr>activeSessions := activeSessions u + 8, packageExpiry := addDays (zone e) (now e) 90\<rparr>"

definition post_api_client_add_package :: "env \<Rightarrow> db \<Rightarrow> User doc \<Rightarrow> nat \<Rightarrow> result" where
  "post_api_client_add_package e d currentUser clientId =
     (if role (snd currentUser) \<noteq> Admin then (RedirectLogin, d, [])
      else
        (case findById (users d) clientId of
           None \<Rightarrow> (Failure 404 ClientNotFound, d, [])
         | Some c \<Rightarrow>
             if role c \<noteq> Client then (Failure 404 ClientNotFound, d, [])
             else (SuccessUser (clientId, grantPackage e c),
                   d\<lparr>users := findByIdAndUpdate clientId (grantPackage e) (users d)\<rparr>, [])))"

text \<open>\<open>app.post('/api/client/:id/reset-package')\<close>\<close>

definition resetPackage :: "User \<Rightarrow> User" where
  "resetPackage u = u\<lparr>activeSessions := 0, packageExpiry := None\<rparr>"

definition post_api_client_reset_package :: "env \<Rightarrow> db \<Rightarrow> User doc \<Rightarrow> nat \<Rightarrow> result" where
  "post_api_client_reset_package e d currentUser clientId =
     (if role (snd currentUser) \<noteq> Admin then (RedirectLogin, d, [])
      else
        (case findById (users d) clientId of
           None \<Rightarrow> (Failure 404 ClientNotFound, d, [])
         | Some c \<Rightarrow>
             (SuccessUser (clientId, resetPackage c),
              d\<lparr>users := findByIdAndUpdate clientId resetPackage (users d)\<rparr>, [])))"

section \<open>Reminder scheduler\<close>

text \<open>
  \<open>moment(session.date).hours(h).minutes(m).seconds(0)\<close>: moment's setters do nothing
  for \<open>NaN\<close>, and otherwise call the one-argument \<open>Date\<close> setter.
\<close>

definition sessionDateTime :: "zone \<Rightarrow> Session \<Rightarrow> instant" where
  "sessionDateTime z s =
     (let hm = parseTime (time s);
          m1 = (case fst hm of None \<Rightarrow> date s | Some h \<Rightarrow> setHours1 z (date s) h);
          m2 = (case snd hm of None \<Rightarrow> m1 | Some m \<Rightarrow> setMinutes1 z m1 m)
      in setSeconds1 z m2 0)"

text \<open>\<open>x.isBetween(a, b)\<close>: both ends excluded.\<close>

definition isBetween :: "instant \<Rightarrow> instant \<Rightarrow> instant \<Rightarrow> bool" where
  "isBetween x a b = (a < x \<and> x < b)"

text \<open>
  The inner loop over the confirmed bookings of one session.  A rejected mail is an
  attempt like any other.  When the populated client is \<open>null\<close> the template throws,
  and the \<open>catch\<close> block, which reads \<open>booking.client.email\<close>, throws again: the whole
  scan ends there, which the second component reports as \<open>False\<close>.
\<close>

fun remindBookings ::
  "(template \<Rightarrow> nat \<Rightarrow> bool) \<Rightarrow> User doc list \<Rightarrow> Booking doc list \<Rightarrow> attempt list \<times> bool" where
  "remindBookings transport us [] = ([], True)"
| "remindBookings transport us (b # bs) =
     (case findById us (client (snd b)) of
        None \<Rightarrow> ([(SessionReminder, fst b, Threw)], False)
      | Some c \<Rightarrow>
          (let r = remindBookings transport us bs
           in (sendEmail transport SessionReminder (fst b) # fst r, snd r)))"

text \<open>The outer loop over \<open>upcomingSessions\<close>.\<close>

fun remindSessions ::
  "env \<Rightarrow> db \<Rightarrow> instant \<Rightarrow> instant \<Rightarrow> Session doc list \<Rightarrow> attempt list \<times> bool" where
  "remindSessions e d startWindow endWindow [] = ([], True)"
| "remindSessions e d startWindow endWindow (s # ss) =
     (if isBetween (sessionDateTime (zone e) (snd s)) startWindow endWindow then
        (let r = remindBookings (sendMail e) (users d) (confirmedBookings d (fst s))
         in if snd r then
              (let r2 = remindSessions e d startWindow endWindow ss
               in (fst r @ fst r2, snd r2))
            else r)
      else remindSessions e d startWindow endWindow ss)"

text \<open>
  \<open>sendSessionReminders\<close>.  \<open>startWindow.startOf('day')\<close> and \<open>endWindow.endOf('day')\<close>
  in the query overwrite the two moments, so the later \<open>isBetween(startWindow,
  endWindow)\<close> compares with the day's bounds.  The scan changes nothing in the store;
  its value is the list of reminder attempts.
\<close>

definition sendSessionReminders :: "env \<Rightarrow> db \<Rightarrow> attempt list" where
  "sendSessionReminders e d =
     (let twoHoursFromNow = now e + 2 * msPerHour;
          startWindow0 = twoHoursFromNow - 7 * msPerMinute;
          endWindow0 = twoHoursFromNow + 8 * msPerMinute;
          startWindow = startOfDay (zone e) startWindow0;
          endWindow = endOfDay (zone e) endWindow0;
          upcomingSessions =
            filter (\<lambda>s. startWindow \<le> date (snd s) \<and> date (snd s) \<le> endWindow \<and> isActive (snd s))
              (sessions d)
      in fst (remindSessions e d startWindow endWindow upcomingSessions))"

text \<open>
  The window the scheduler's comments and the specification describe, for a session
  starting at \<open>T\<close>: \<open>T\<close> lies in \<open>[now + 2h - 7min, now + 2h + 8min]\<close>.
\<close>

definition inReminderWindow :: "instant \<Rightarrow> instant \<Rightarrow> bool" where
  "inReminderWindow t T =
     (t + 2 * msPerHour - 7 * msPerMinute \<le> T \<and> T \<le> t + 2 * msPerHour + 8 * msPerMinute)"

text \<open>The reminders of one scan that went to a given booking.\<close>

definition remindersFor :: "nat \<Rightarrow> attempt list \<Rightarrow> attempt list" where
  "remindersFor bid as = filter (\<lambda>a. fst a = SessionReminder \<and> fst (snd a) = bid) as"

section \<open>Requests\<close>

text \<open>
  Every request that changes or scans the store, and the handler it reaches.  The cron
  tick and \<open>/api/test-reminders\<close> both run \<open>sendSessionReminders\<close>.
\<close>

datatype request =
    PostSession "User doc" session_request
  | PostBooking "User doc" booking_request
  | DeleteSession "User doc" nat
  | DeleteBooking "User doc" nat
  | PutBookingNotes "User doc" nat string
  | AddPackage "User doc" nat
  | ResetPackage "User doc" nat
  | ReminderTick

fun handle :: "env \<Rightarrow> db \<Rightarrow> request \<Rightarrow> result" where
  "handle e d (PostSession u body) = post_api_session e d u body"
| "handle e d (PostBooking u body) = post_api_booking e d u body"
| "handle e d (DeleteSession u sid) = delete_api_session e d u sid"
| "handle e d (DeleteBooking u bid) = delete_api_booking e d u bid"
| "handle e d (PutBookingNotes u bid newNotes) = put_api_booking_notes e d u bid newNotes"
| "handle e d (AddPackage u cid) = post_api_client_add_package e d u cid"
| "handle e d (ResetPackage u cid) = post_api_client_reset_package e d u cid"
| "handle e d ReminderTick = (Success, d, sendSessionReminders e d)"

text \<open>
  The store after a sequence of steps.  A step is a request with the environment it ran
  in, or a replacement of the sessions collection, which stands for any edit of session
  documents made outside the handlers (the server itself has no route that edits a
  session).
\<close>

datatype step = Handle env request | EditSessions "Session doc list"

fun run :: "db \<Rightarrow> step list \<Rightarrow> db" where
  "run d [] = d"
| "run d (Handle e r # steps) = run (fst (snd (handle e d r))) steps"
| "run d (EditSessions ss # steps) = run (d\<lparr>sessions := ss\<rparr>) steps"

text \<open>
  Document ids are unique: the ids of the bookings collection are distinct, and all
  were handed out before the next one.
\<close>

definition uniqueIds :: "db \<Rightarrow> bool" where
  "uniqueIds d =
     (distinct (map fst (bookings d)) \<and> list_all (\<lambda>i. i < nextId d) (map fst (bookings d)))"

section \<open>Outcome of a request\<close>

text \<open>A response other than an error status or the redirect to the login page.\<close>

definition succeeded :: "response \<Rightarrow> bool" where
  "succeeded r = (case r of Failure c x \<Rightarrow> False | RedirectLogin \<Rightarrow> False | _ \<Rightarrow> True)"

section \<open>A small store for concrete runs\<close>

text \<open>
  Two clients and an admin, one active session of capacity 4 on 2024-10-04 at 18:00 (the
  server runs in UTC), and two confirmed bookings of Bob's that occupy three seats.
  The transport of the example environment rejects every mail.
\<close>

definition ex_alice :: "User doc" where
  "ex_alice = (11, \<lparr>name = ''Alice'', email = ''alice@example.org'', role = Client,
                    activeSessions = 0, packageExpiry = None\<rparr>)"

definition ex_tom :: "User doc" where
  "ex_tom = (12, \<lparr>name = ''Tom'', email = ''tom@example.org'', role = Admin,
                  activeSessions = 0, packageExpiry = None\<rparr>)"

definition ex_bob :: "User doc" where
  "ex_bob = (13, \<lparr>name = ''Bob'', email = ''bob@example.org'', role = Client,
                  activeSessions = 5, packageExpiry = None\<rparr>)"

definition ex_session :: Session where
  "ex_session = \<lparr>date = 1728000000000, time = ''18:00'', exerciseType = ''body-health'',
                  maxCapacity = 4, isActive = True, createdBy = 12, trainer = 12,
                  description = [], price = 50, packagePrice = 200, packageDuration = 90\<rparr>"

definition ex_booking :: "nat \<Rightarrow> int \<Rightarrow> bool \<Rightarrow> Booking" where
  "ex_booking cid g pkg =
     \<lparr>session = 10, client = cid, groupSize = g, status = Confirmed, notesText = [],
      reminderSent = False, canCancel = True, cancellationDeadline = Some 1727978400000,
      isPackageBooking = pkg, packageId = None, sessionNumber = None\<rparr>"

definition ex_db :: db where
  "ex_db = \<lparr>users = [ex_alice, ex_tom, ex_bob], sessions = [(10, ex_session)],
            bookings = [(20, ex_booking 13 2 False), (21, ex_booking 13 1 True)], nextId = 22\<rparr>"

definition ex_env :: env where
  "ex_env = \<lparr>now = 1727900000000, zone = utcZone, sendMail = (\<lambda>t b. False)\<rparr>"

definition ex_request :: "string \<Rightarrow> bool \<Rightarrow> booking_request" where
  "ex_request g pkg = \<lparr>req_sessionId = 10, req_groupSize = g, req_isPackageBooking = pkg,
                        req_packageId = None, req_sessionNumber = None\<rparr>"

text \<open>
  The same store with the session switched off, a request for a new session at the
  same date and time, and an environment for a reminder scan at a given time whose
  transport accepts every mail.
\<close>

definition ex_db_inactive :: db where
  "ex_db_inactive = ex_db\<lparr>sessions := [(10, ex_session\<lparr>isActive := False\<rparr>)]\<rparr>"

definition ex_session_request :: session_request where
  "ex_session_request =
     \<lparr>req_date = Some 1728000000000, req_time = ''18:00'', req_exerciseType = ''body-health'',
      req_maxCapacity = ''4'', req_trainerId = Some 12, req_description = []\<rparr>"

definition ex_scan_env :: "instant \<Rightarrow> env" where
  "ex_scan_env t = \<lparr>now = t, zone = utcZone, sendMail = (\<lambda>tpl b. True)\<rparr>"

text \<open>
  A zone with a daylight-saving change, as Central Europe had it in autumn 2024: the
  offset is two hours until 2024-10-27 01:00 UTC, when the wall clock goes from 03:00
  back to 02:00, and one hour from then on; a wall-clock reading before 03:00 of that
  day is given the earlier offset.  The stores next to it hold the example session at
  another time of day, and on the day of the change.
\<close>

definition ex_zone_dst :: zone where
  "ex_zone_dst =
     \<lparr>utcOffset = (\<lambda>t. if t < 1729990800000 then 7200000 else 3600000),
      localOffset = (\<lambda>l. if l < 1729998000000 then 7200000 else 3600000)\<rparr>"

definition ex_db_morning :: db where
  "ex_db_morning = ex_db\<lparr>sessions := [(10, ex_session\<lparr>time := ''09:30''\<rparr>)]\<rparr>"

definition ex_db_dst :: db where
  "ex_db_dst = ex_db\<lparr>sessions := [(10, ex_session\<lparr>date := 1729987200000\<rparr>)]\<rparr>"

text \<open>
  The example store without the trainer's user document, and without the session's
  document: \<open>populate\<close> then leaves \<open>null\<close> where the mail templates read a name.
\<close>

definition ex_db_no_trainer :: db where
  "ex_db_no_trainer = ex_db\<lparr>users := [ex_alice, ex_bob]\<rparr>"

definition ex_db_no_session :: db where
  "ex_db_no_session = ex_db\<lparr>sessions := []\<rparr>"

section \<open>Verified properties\<close>

subsection \<open>Occupied seats\<close>

text \<open>
  The \<open>reduce\<close> of the capacity check is the sum of the group sizes, and a new
  confirmed booking adds its group size to it.
\<close>

lemma foldl_groupSize:
  "foldl (\<lambda>sum b. sum + groupSize (snd b)) a xs = a + sum_list (map (\<lambda>b. groupSize (snd b)) xs)"
  by (induction xs arbitrary: a) simp_all

lemma occupied_sum:
  "occupied d sid = sum_list (map (\<lambda>b. groupSize (snd b)) (confirmedBookings d sid))"
  by (simp add: occupied_def foldl_groupSize)

lemma occupied_snoc:
  "bookings d' = bookings d @ [b] \<Longrightarrow> session (snd b) = sid \<Longrightarrow> status (snd b) = Confirmed \<Longrightarrow>
   occupied d' sid = occupied d sid + groupSize (snd b)"
  by (simp add: occupied_sum confirmedBookings_def)

subsection \<open>Lookups in a collection\<close>

text \<open>
  Lookups after an insertion at the end, after an update in place and after a
  filter of a collection with distinct ids.
\<close>

lemma map_of_filter_distinct:
  "distinct (map fst xs) \<Longrightarrow> map_of (filter P xs) k = Some v \<Longrightarrow> map_of xs k = Some v"
  by (metis distinct_map_filter filter_is_subset map_of_eq_Some_iff subsetD)

lemma findById_snoc:
  "findById xs k = Some v \<Longrightarrow> findById (xs @ [y]) k = Some v"
  by (simp add: findById_def map_add_Some_iff)

lemma findById_snoc_new:
  "findById xs k = None \<Longrightarrow> findById (xs @ [(k, v)]) k = Some v"
  by (simp add: findById_def map_add_Some_iff)

lemma findById_findByIdAndUpdate:
  "findById (findByIdAndUpdate k f xs) k' =
     (if k' = k then map_option f (findById xs k) else findById xs k')"
  by (simp add: findById_def findByIdAndUpdate_def map_of_map_entry split: option.splits)

subsection \<open>Booking creation, step by step\<close>

text \<open>
  What a request that passes every guard returns, what a successful response says
  about the request, and what the handler does to the bookings collection in any
  case.
\<close>

lemma preSave_fields:
  "session (preSave e d n b) = session b"
  "client (preSave e d n b) = client b"
  "groupSize (preSave e d n b) = groupSize b"
  "status (preSave e d n b) = status b"
  "isPackageBooking (preSave e d n b) = isPackageBooking b"
  by (simp_all add: preSave_def split: option.splits)

lemma post_api_booking_success:
  assumes "role (snd currentUser) \<noteq> Admin"
      and "findById (sessions d) (req_sessionId body) = Some s"
      and "isActive s"
      and "parseInt (req_groupSize body) = Some g" 
      and "1 \<le> g" and "g \<le> 4"
      and "occupied d (req_sessionId body) + g \<le> maxCapacity s"
  shows "fst (post_api_booking e d currentUser body) =
           SuccessBooking (nextId d,
             preSave e d True (newBooking (req_sessionId body) (fst currentUser) g body))"
    and "bookings (fst (snd (post_api_booking e d currentUser body))) =
           bookings d @ [(nextId d,
             preSave e d True (newBooking (req_sessionId body) (fst currentUser) g body))]"
    and "sessions (fst (snd (post_api_booking e d currentUser body))) = sessions d"
    and "users (fst (snd (post_api_booking e d currentUser body))) =
           (if req_isPackageBooking body
            then findByIdAndUpdate (fst currentUser) (applyPackageBooking e s) (users d)
            else users d)"
    and "snd (snd (post_api_booking e d currentUser body)) =
           sendBookingConfirmation (sendMail e) (nextId d) (findById (users d) (createdBy s))"
  using assms
  by (simp_all add: post_api_booking_def exceedsCapacity_def validBooking_def newBooking_def
      Let_def)

lemma post_api_booking_full:
  assumes "findById (sessions d) (req_sessionId body) = Some s"
      and "maxCapacity s \<le> occupied d (req_sessionId body)"
  shows "\<not> succeeded (fst (post_api_booking e d currentUser body))"
  using assms
  by (auto simp add: post_api_booking_def succeeded_def Let_def exceedsCapacity_def
      validBooking_def newBooking_def split: option.splits)

lemma post_api_booking_bookings:
  "bookings (fst (snd (post_api_booking e d u body))) = bookings d
   \<or> (\<exists>b. fst (post_api_booking e d u body) = SuccessBooking (nextId d, b)
          \<and> bookings (fst (snd (post_api_booking e d u body))) = bookings d @ [(nextId d, b)]
          \<and> nextId (fst (snd (post_api_booking e d u body))) = Suc (nextId d))"
  by (auto simp: post_api_booking_def Let_def split: option.splits)

lemma post_api_booking_nextId:
  "nextId d \<le> nextId (fst (snd (post_api_booking e d u body)))"
  by (auto simp: post_api_booking_def Let_def split: option.splits)

lemma post_api_booking_SuccessD:
  assumes "fst (post_api_booking e d currentUser body) = SuccessBooking (bid, b)"
  shows "\<exists>s g. role (snd currentUser) \<noteq> Admin
           \<and> findById (sessions d) (req_sessionId body) = Some s \<and> isActive s
           \<and> parseInt (req_groupSize body) = Some g \<and> 1 \<le> g \<and> g \<le> 4
           \<and> occupied d (req_sessionId body) + g \<le> maxCapacity s
           \<and> bid = nextId d
           \<and> b = preSave e d True (newBooking (req_sessionId body) (fst currentUser) g body)"
  using assms
  by (auto simp: post_api_booking_def Let_def exceedsCapacity_def validBooking_def newBooking_def
      split: option.splits if_splits)

lemma utcZone_simps: "LocalTime utcZone t = t" "UTC utcZone l = l"
  by (simp_all add: LocalTime_def UTC_def utcZone_def)

lemma digit_facts:
  assumes "c \<in> set ''0123456789''"
  shows "\<not> isWhiteSpace c" "c \<noteq> CHR ''-''" "c \<noteq> CHR ''+''" "c \<noteq> CHR '':''"
    "c \<noteq> CHR ''x''" "c \<noteq> CHR ''X''" "isRadixDigit 10 c"
    "int (digitValue c) = int (of_char c) - 48"
  using assms by (auto simp: isWhiteSpace_def isRadixDigit_def digitValue_def)

lemma parseInt_two_digits:
  assumes "a \<in> set ''0123456789''" "b \<in> set ''0123456789''"
  shows "parseInt [a, b] = Some (10 * (int (of_char a) - 48) + (int (of_char b) - 48))"
proof -
  have sp: "stripPrefix [a, b] = (10, [a, b])"
    using digit_facts(5,6) [OF assms(2)] by (simp add: stripPrefix_def)
  show ?thesis
    using digit_facts [OF assms(1)] digit_facts [OF assms(2)]
    by (simp add: parseInt_def stripSign_def sp digitsValue_def)
qed

lemma parseTime_HHMM:
  assumes "set [h1, h2, m1, m2] \<subseteq> set ''0123456789''"
  shows "parseTime [h1, h2, CHR '':'', m1, m2] =
           (Some (10 * (int (of_char h1) - 48) + (int (of_char h2) - 48)),
            Some (10 * (int (of_char m1) - 48) + (int (of_char m2) - 48)))"
proof -
  from assms have d: "h1 \<in> set ''0123456789''" "h2 \<in> set ''0123456789''"
    "m1 \<in> set ''0123456789''" "m2 \<in> set ''0123456789''" by auto
  have sc: "split_colon [h1, h2, CHR '':'', m1, m2] = [[h1, h2], [m1, m2]]"
    using digit_facts(4) [OF d(1)] digit_facts(4) [OF d(2)] digit_facts(4) [OF d(3)]
      digit_facts(4) [OF d(4)] by simp
  show ?thesis
    unfolding parseTime_def sc
    by (simp only: list.case parseInt_two_digits [OF d(1,2)] parseInt_two_digits [OF d(3,4)])
qed

lemma sessionDate_HHMM:
  assumes "time s = [h1, h2, CHR '':'', m1, m2]"
      and "set [h1, h2, m1, m2] \<subseteq> set ''0123456789''"
  shows "sessionDate z s =
           TimeClip (UTC z (Day (LocalTime z (date s)) * msPerDay
                            + (10 * (int (of_char h1) - 48) + (int (of_char h2) - 48)) * msPerHour
                            + (10 * (int (of_char m1) - 48) + (int (of_char m2) - 48)) * msPerMinute))"
  by (simp add: sessionDate_def assms(1) parseTime_HHMM [OF assms(2)] setHours4_def MakeDate_def
      MakeTime_def Let_def add.assoc)

lemma preSave_sendMail: "preSave (e\<lparr>sendMail := tr\<rparr>) d n b = preSave e d n b"
  by (simp add: preSave_def split: option.splits)

lemma applyPackageBooking_sendMail:
  "applyPackageBooking (e\<lparr>sendMail := tr\<rparr>) s = applyPackageBooking e s"
  by (simp add: applyPackageBooking_def fun_eq_iff)

text \<open>
  Adding calendar days keeps the wall-clock time of day: the local reading moves by
  whole days and is converted back with the offset in force at the new reading.
\<close>

lemma addDays_value:
  "addDays z t n =
     (if n = 0 then TimeClip t
      else TimeClip (t + utcOffset z t + n * 86400000
                     - localOffset z (t + utcOffset z t + n * 86400000)))"
proof -
  have "(x div 86400000 + n) * 86400000 + x mod 86400000 = x + n * 86400000" for x :: int
    by (simp add: distrib_right)
  then show ?thesis
    by (simp add: addDays_def Let_def UTC_def LocalTime_def MakeDate_def Day_def
        TimeWithinDay_def msPerDay_def)
qed

subsection \<open>Booking cancellation, step by step\<close>

text \<open>The guards of the cancellation handler, in the order it tests them.\<close>

lemma delete_api_booking_guards:
  assumes "fst (delete_api_booking e d actor k) = Success"
  shows "\<exists>bk. findById (bookings d) k = Some bk
          \<and> \<not> (role (snd actor) \<noteq> Admin \<and> findById (users d) (client bk) = None)
          \<and> \<not> (role (snd actor) \<noteq> Admin \<and> client bk \<noteq> fst actor)
          \<and> \<not> (role (snd actor) \<noteq> Admin \<and> pastDeadline (now e) (cancellationDeadline bk))
          \<and> \<not> (isPackageBooking bk \<and> findById (users d) (client bk) = None)"
proof (cases "findById (bookings d) k")
  case None
  with assms show ?thesis by (simp add: delete_api_booking_def)
next
  case (Some bk)
  let ?c1 = "role (snd actor) \<noteq> Admin \<and> findById (users d) (client bk) = None"
  let ?c2 = "role (snd actor) \<noteq> Admin \<and> client bk \<noteq> fst actor"
  let ?c3 = "role (snd actor) \<noteq> Admin \<and> pastDeadline (now e) (cancellationDeadline bk)"
  let ?c4 = "isPackageBooking bk \<and> findById (users d) (client bk) = None"
  have "\<not> ?c1"
  proof
    assume c: ?c1
    from c Some assms show False by (simp add: delete_api_booking_def Let_def split: if_splits)
  qed
  moreover have "\<not> ?c2"
  proof
    assume c: ?c2
    from c \<open>\<not> ?c1\<close> Some assms show False
      by (simp add: delete_api_booking_def Let_def split: if_splits)
  qed
  moreover have "\<not> ?c3"
  proof
    assume c: ?c3
    from c \<open>\<not> ?c1\<close> \<open>\<not> ?c2\<close> Some assms show False
      by (simp add: delete_api_booking_def Let_def split: if_splits)
  qed
  moreover have "\<not> ?c4"
  proof
    assume c: ?c4
    from c \<open>\<not> ?c1\<close> \<open>\<not> ?c2\<close> \<open>\<not> ?c3\<close> Some assms show False
      by (simp add: delete_api_booking_def Let_def split: if_splits)
  qed
  ultimately show ?thesis using Some by blast
qed

lemma delete_api_booking_passed:
  assumes "findById (bookings d) k = Some bk"
      and "\<not> (role (snd actor) \<noteq> Admin \<and> findById (users d) (client bk) = None)"
      and "\<not> (role (snd actor) \<noteq> Admin \<and> client bk \<noteq> fst actor)"
      and "\<not> (role (snd actor) \<noteq> Admin \<and> pastDeadline (now e) (cancellationDeadline bk))"
      and "\<not> (isPackageBooking bk \<and> findById (users d) (client bk) = None)"
  shows "fst (delete_api_booking e d actor k) = Success"
    and "users (fst (snd (delete_api_booking e d actor k))) =
               (if isPackageBooking bk
                then findByIdAndUpdate (client bk) applyPackageCancellation (users d)
                else users d)"
    and "bookings (fst (snd (delete_api_booking e d actor k))) =
               findByIdAndDelete k (bookings d)"
    and "sessions (fst (snd (delete_api_booking e d actor k))) = sessions d"
    and "nextId (fst (snd (delete_api_booking e d actor k))) = nextId d"
    and "snd (snd (delete_api_booking e d actor k)) =
               [sendCancellationNotification (sendMail e) k
                  (findById (sessions d) (session bk)) (findById (users d) (client bk))]"
proof -
  have eq: "delete_api_booking e d actor k =
    (let d1 = (if isPackageBooking bk
               then d\<lparr>users := findByIdAndUpdate (client bk) applyPackageCancellation (users d)\<rparr>
               else d)
     in (Success, d1\<lparr>bookings := findByIdAndDelete k (bookings d1)\<rparr>,
         [sendCancellationNotification (sendMail e) k
            (findById (sessions d) (session bk)) (findById (users d) (client bk))]))"
    unfolding delete_api_booking_def using assms by (simp add: Let_def)
  show "fst (delete_api_booking e d actor k) = Success"
    and "users (fst (snd (delete_api_booking e d actor k))) =
               (if isPackageBooking bk
                then findByIdAndUpdate (client bk) applyPackageCancellation (users d)
                else users d)"
    and "bookings (fst (snd (delete_api_booking e d actor k))) =
               findByIdAndDelete k (bookings d)"
    and "sessions (fst (snd (delete_api_booking e d actor k))) = sessions d"
    and "nextId (fst (snd (delete_api_booking e d actor k))) = nextId d"
    and "snd (snd (delete_api_booking e d actor k)) =
               [sendCancellationNotification (sendMail e) k
                  (findById (sessions d) (session bk)) (findById (users d) (client bk))]"
    by (simp_all add: eq Let_def)
qed

lemma delete_api_booking_SuccessD:
  assumes "fst (delete_api_booking e d actor k) = Success"
  shows "\<exists>bk. findById (bookings d) k = Some bk
          \<and> users (fst (snd (delete_api_booking e d actor k))) =
               (if isPackageBooking bk
                then findByIdAndUpdate (client bk) applyPackageCancellation (users d)
                else users d)
          \<and> bookings (fst (snd (delete_api_booking e d actor k))) =
               findByIdAndDelete k (bookings d)
          \<and> sessions (fst (snd (delete_api_booking e d actor k))) = sessions d"
proof -
  from delete_api_booking_guards [OF assms] obtain bk where
    bk: "findById (bookings d) k = Some bk"
    and g: "\<not> (role (snd actor) \<noteq> Admin \<and> findById (users d) (client bk) = None)"
      "\<not> (role (snd actor) \<noteq> Admin \<and> client bk \<noteq> fst actor)"
      "\<not> (role (snd actor) \<noteq> Admin \<and> pastDeadline (now e) (cancellationDeadline bk))"
      "\<not> (isPackageBooking bk \<and> findById (users d) (client bk) = None)"
    by blast
  note P = delete_api_booking_passed [OF bk g]
  show ?thesis using bk P(2,3,4) by blast
qed

subsection \<open>Unique ids and stored deadlines\<close>

text \<open>
  Every request keeps the ids of the bookings distinct and below the next id, and
  leaves the deadline of every booking that it does not delete as it is.
\<close>

lemma uniqueIds_fresh: "uniqueIds d \<Longrightarrow> findById (bookings d) (nextId d) = None"
  by (auto simp: uniqueIds_def findById_def list_all_iff map_of_eq_None_iff)

lemma uniqueIds_snoc:
  "uniqueIds d \<Longrightarrow> bookings d' = bookings d @ [(nextId d, b)] \<Longrightarrow> nextId d' = Suc (nextId d) \<Longrightarrow>
   uniqueIds d'"
  by (auto simp: uniqueIds_def list_all_iff)

lemma uniqueIds_same:
  "uniqueIds d \<Longrightarrow> bookings d' = bookings d \<Longrightarrow> nextId d \<le> nextId d' \<Longrightarrow> uniqueIds d'"
  by (fastforce simp: uniqueIds_def list_all_iff)

lemma uniqueIds_filter:
  "uniqueIds d \<Longrightarrow> bookings d' = filter P (bookings d) \<Longrightarrow> nextId d \<le> nextId d' \<Longrightarrow> uniqueIds d'"
  by (fastforce simp: uniqueIds_def list_all_iff distinct_map_filter)

lemma uniqueIds_map_entry:
  "uniqueIds d \<Longrightarrow> bookings d' = AList.map_entry k f (bookings d) \<Longrightarrow> nextId d \<le> nextId d' \<Longrightarrow> uniqueIds d'"
  unfolding uniqueIds_def list_all_iff
  by (simp add: distinct_map_entry dom_map_entry) (metis dom_map_entry order_less_le_trans)

lemma handle_uniqueIds:
  assumes "uniqueIds d"
  shows "uniqueIds (fst (snd (handle e d r)))"
proof (cases r)
  case (PostSession u body)
  then show ?thesis using assms
    by (auto simp: post_api_session_def Let_def split: option.splits intro: uniqueIds_same)
next
  case (PostBooking u body)
  then show ?thesis using assms post_api_booking_bookings [of e d u body]
      post_api_booking_nextId [of d e u body]
    by (auto intro: uniqueIds_same uniqueIds_snoc)
next
  case (DeleteSession u sid)
  then show ?thesis using assms
    by (auto simp: delete_api_session_def Let_def deleteMany_def intro: uniqueIds_filter)
next
  case (DeleteBooking u bid)
  then show ?thesis using assms
    by (auto simp: delete_api_booking_def Let_def findByIdAndDelete_def AList.delete_eq
        split: option.splits intro: uniqueIds_filter)
next
  case (PutBookingNotes u bid n)
  then show ?thesis using assms
    by (auto simp: put_api_booking_notes_def findByIdAndUpdate_def
        split: option.splits intro: uniqueIds_map_entry)
next
  case (AddPackage u cid)
  then show ?thesis using assms
    by (auto simp: post_api_client_add_package_def split: option.splits intro: uniqueIds_same)
next
  case (ResetPackage u cid)
  then show ?thesis using assms
    by (auto simp: post_api_client_reset_package_def split: option.splits intro: uniqueIds_same)
next
  case ReminderTick
  then show ?thesis using assms by simp
qed

lemma handle_keeps_deadline:
  assumes "uniqueIds d"
      and "findById (bookings d) bid = Some b"
      and "findById (bookings (fst (snd (handle e d r)))) bid = Some b'"
  shows "cancellationDeadline b' = cancellationDeadline b"
proof (cases r)
  case (PostSession u body)
  then show ?thesis using assms
    by (auto simp: post_api_session_def Let_def split: option.splits if_splits)
next
  case (PostBooking u body)
  then show ?thesis using assms post_api_booking_bookings [of e d u body]
      findById_snoc [OF assms(2)]
    by auto
next
  case (DeleteSession u sid)
  have dist: "distinct (map fst (bookings d))" using assms(1) by (simp add: uniqueIds_def)
  show ?thesis
  proof (cases "role (snd u) = Admin")
    case True
    with DeleteSession assms(3)
    have "map_of (filter (\<lambda>b. session (snd b) \<noteq> sid) (bookings d)) bid = Some b'"
      by (simp add: delete_api_session_def Let_def deleteMany_def findById_def)
    from map_of_filter_distinct [OF dist this] assms(2) show ?thesis
      by (simp add: findById_def)
  next
    case False
    with DeleteSession assms(2,3) show ?thesis by (simp add: delete_api_session_def)
  qed
next
  case (DeleteBooking u k)
  then show ?thesis using assms
    by (auto simp: delete_api_booking_def Let_def findByIdAndDelete_def findById_def
        delete_conv' split: option.splits if_splits)
next
  case (PutBookingNotes u k n)
  then show ?thesis using assms
    by (auto simp: put_api_booking_notes_def findByIdAndUpdate_def findById_def
        map_of_map_entry split: option.splits if_splits)
next
  case (AddPackage u cid)
  then show ?thesis using assms
    by (auto simp: post_api_client_add_package_def split: option.splits if_splits)
next
  case (ResetPackage u cid)
  then show ?thesis using assms
    by (auto simp: post_api_client_reset_package_def split: option.splits if_splits)
next
  case ReminderTick
  then show ?thesis using assms by simp
qed

lemma handle_keeps_booking:
  assumes "findById (bookings (fst (snd (handle e d r)))) bid = Some b'"
      and "bid < nextId d" and "uniqueIds d"
  shows "\<exists>b. findById (bookings d) bid = Some b"
proof (cases r)
  case (PostSession u body)
  then show ?thesis using assms
    by (auto simp: post_api_session_def Let_def split: option.splits if_splits)
next
  case (PostBooking u body)
  then show ?thesis using assms post_api_booking_bookings [of e d u body]
    by (auto simp: findById_def map_add_Some_iff split: if_splits)
next
  case (DeleteSession u sid)
  then show ?thesis using assms
    by (auto simp: delete_api_session_def Let_def deleteMany_def findById_def uniqueIds_def
        split: if_splits dest!: map_of_SomeD)
next
  case (DeleteBooking u k)
  then show ?thesis using assms
    by (auto simp: delete_api_booking_def Let_def findByIdAndDelete_def findById_def
        delete_conv' split: option.splits if_splits)
next
  case (PutBookingNotes u k n)
  then show ?thesis using assms
    by (auto simp: put_api_booking_notes_def findByIdAndUpdate_def findById_def
        map_of_map_entry split: option.splits if_splits)
next
  case (AddPackage u cid)
  then show ?thesis using assms
    by (auto simp: post_api_client_add_package_def split: option.splits if_splits)
next
  case (ResetPackage u cid)
  then show ?thesis using assms
    by (auto simp: post_api_client_reset_package_def split: option.splits if_splits)
next
  case ReminderTick
  then show ?thesis using assms by simp
qed

lemma handle_nextId: "nextId d \<le> nextId (fst (snd (handle e d r)))"
proof (cases r)
  case (PostBooking u body)
  then show ?thesis using post_api_booking_nextId [of d e u body] by simp
qed (auto simp: post_api_session_def delete_api_session_def delete_api_booking_def
      put_api_booking_notes_def post_api_client_add_package_def
      post_api_client_reset_package_def Let_def split: option.splits)

lemma run_keeps_deadline:
  "uniqueIds d \<Longrightarrow> bid < nextId d \<Longrightarrow> findById (bookings (run d steps)) bid = Some b' \<Longrightarrow>
   \<exists>b. findById (bookings d) bid = Some b \<and> cancellationDeadline b' = cancellationDeadline b"
proof (induction d steps rule: run.induct)
  case (1 d)
  then show ?case by simp
next
  case (2 d e r steps)
  let ?d1 = "fst (snd (handle e d r))"
  have u1: "uniqueIds ?d1" using "2.prems"(1) by (rule handle_uniqueIds)
  have n1: "bid < nextId ?d1" using "2.prems"(2) handle_nextId [of d e r] by simp
  from "2.IH" [OF u1 n1] "2.prems"(3)
  obtain b1 where b1: "findById (bookings ?d1) bid = Some b1"
    and eq1: "cancellationDeadline b' = cancellationDeadline b1" by auto
  from handle_keeps_booking [OF b1 "2.prems"(2,1)]
  obtain b where b: "findById (bookings d) bid = Some b" by blast
  from handle_keeps_deadline [OF "2.prems"(1) b b1] eq1 b show ?case by simp
next
  case (3 d ss steps)
  have "uniqueIds (d\<lparr>sessions := ss\<rparr>)" using "3.prems"(1) by (simp add: uniqueIds_def)
  from "3.IH" [OF this] "3.prems"(2,3) show ?case by simp
qed

subsection \<open>Runs on the example store\<close>

lemmas parse_defs = parseTime_def parseInt_def stripSign_def stripPrefix_def isWhiteSpace_def
      isRadixDigit_def digitValue_def digitsValue_def

lemmas ex_defs = ex_alice_def ex_tom_def ex_bob_def ex_session_def ex_booking_def ex_db_def
  ex_env_def ex_request_def

lemmas clock_defs = Day_def HourFromTime_def MinFromTime_def SecFromTime_def msFromTime_def
  MakeTime_def MakeDate_def msPerDay_def msPerHour_def msPerMinute_def

lemma ex_occupied: "occupied ex_db 10 = 3"
  by (simp add: occupied_def confirmedBookings_def ex_defs)

lemma ex_findSession: "findById (sessions ex_db) 10 = Some ex_session"
  by (simp add: findById_def ex_db_def)

lemma parseInt_examples:
  "parseInt ''0'' = Some 0" "parseInt ''1'' = Some 1" "parseInt ''2'' = Some 2"
  by (simp_all add: parse_defs)

lemma ex_uniqueIds: "uniqueIds ex_db"
  by (simp add: uniqueIds_def ex_db_def)

lemma ex_tom_admin: "role (snd ex_tom) = Admin"
  by (simp add: ex_tom_def)

lemma ex_parseTime: "parseTime (time ex_session) = (Some 18, Some 0)"
  by (simp add: ex_session_def parse_defs)

lemma ex_sessionDate: "sessionDate utcZone ex_session = Some 1728064800000"
proof -
  have d: "date ex_session = 1728000000000" by (simp add: ex_session_def)
  show ?thesis
    by (simp add: sessionDate_def ex_parseTime setHours4_def utcZone_simps d TimeClip_def
        MakeDate_def MakeTime_def Day_def msPerDay_def msPerHour_def msPerMinute_def)
qed

lemma ex_post_booking:
  "post_api_booking ex_env ex_db ex_alice (ex_request ''1'' pkg) =
     (SuccessBooking (22, ex_booking 11 1 pkg),
      ex_db\<lparr>bookings := bookings ex_db @ [(22, ex_booking 11 1 pkg)], nextId := 23,
            users := (if pkg
                      then [(11, (snd ex_alice)\<lparr>activeSessions := 1,
                                                packageExpiry := Some 1735676000000\<rparr>),
                            ex_tom, ex_bob]
                      else users ex_db)\<rparr>,
      [(BookingConfirmation, 22, Rejected), (TrainerNotification, 22, Rejected)])"
proof -
  have pre: "preSave ex_env ex_db True (newBooking 10 11 1 (ex_request ''1'' pkg))
               = ex_booking 11 1 pkg"
    using ex_findSession ex_sessionDate
    by (simp add: preSave_def newBooking_def ex_env_def ex_request_def ex_booking_def
        TimeClip_def)
  have fs: "findById (sessions ex_db) 10 = Some ex_session" by (rule ex_findSession)
  have oc: "occupied ex_db 10 = 3" by (rule ex_occupied)
  show ?thesis
    unfolding post_api_booking_def
    by (simp add: ex_request_def parseInt_examples ex_alice_def fs oc exceedsCapacity_def
        validBooking_def Let_def pre [unfolded ex_request_def])
      (simp add: ex_session_def ex_db_def newBooking_def sendBookingConfirmation_def
        sendEmail_def ex_env_def findById_def findByIdAndUpdate_def applyPackageBooking_def
        addDays_def utcZone_simps TimeClip_def MakeDate_def Day_def TimeWithinDay_def
        ex_alice_def ex_tom_def ex_bob_def msPerDay_def)
qed

lemma ex_stored:
  "findById (bookings (fst (snd (post_api_booking ex_env ex_db ex_alice (ex_request ''1'' pkg))))) 22
     = Some (ex_booking 11 1 pkg)"
  by (simp add: ex_post_booking findById_def) (simp add: ex_db_def)

lemma ex_users_after:
  "findById (users (fst (snd (post_api_booking ex_env ex_db ex_alice (ex_request ''1'' True))))) 11
     = Some ((snd ex_alice)\<lparr>activeSessions := 1, packageExpiry := Some 1735676000000\<rparr>)"
  by (simp add: ex_post_booking findById_def)

lemma ex_sessionDateTime: "sessionDateTime utcZone ex_session = 1728064800000"
proof -
  have d: "date ex_session = 1728000000000" by (simp add: ex_session_def)
  show ?thesis
    by (simp add: sessionDateTime_def ex_parseTime Let_def d setHours1_def setMinutes1_def
        setSeconds1_def utcZone_simps clock_defs)
qed

lemma ex_confirmed:
  "confirmedBookings ex_db 10 = [(20, ex_booking 13 2 False), (21, ex_booking 13 1 True)]"
  by (simp add: confirmedBookings_def ex_db_def ex_booking_def)

lemma ex_remindBookings:
  "remindBookings (\<lambda>tpl b. True) (users ex_db) (confirmedBookings ex_db 10)
     = ([(SessionReminder, 20, Delivered), (SessionReminder, 21, Delivered)], True)"
  unfolding ex_confirmed
  by (simp add: findById_def sendEmail_def Let_def ex_db_def ex_booking_def
      ex_alice_def ex_tom_def ex_bob_def)

lemma ex_scan:
  assumes "startOfDay utcZone (t + 2 * msPerHour - 7 * msPerMinute) = 1728000000000"
      and "endOfDay utcZone (t + 2 * msPerHour + 8 * msPerMinute) = 1728086399999"
  shows "sendSessionReminders (ex_scan_env t) ex_db
           = [(SessionReminder, 20, Delivered), (SessionReminder, 21, Delivered)]"
proof -
  have s: "sessions ex_db = [(10, ex_session)]" by (simp add: ex_db_def)
  have d: "date ex_session = 1728000000000" "isActive ex_session"
    by (simp_all add: ex_session_def)
  have e: "now (ex_scan_env t) = t" "zone (ex_scan_env t) = utcZone"
    "sendMail (ex_scan_env t) = (\<lambda>tpl b. True)"
    by (simp_all add: ex_scan_env_def)
  show ?thesis
    by (simp add: sendSessionReminders_def Let_def e assms s d ex_sessionDateTime isBetween_def
        ex_remindBookings)
qed

text \<open>The example request on the example store with another session under the same id.\<close>

lemma ex_post_other_session:
  assumes "isActive s'" and "maxCapacity s' = 4"
  shows "uniqueIds (ex_db\<lparr>sessions := [(10, s')]\<rparr>)
       \<and> findById (sessions (ex_db\<lparr>sessions := [(10, s')]\<rparr>))
           (req_sessionId (ex_request ''1'' pkg)) = Some s'
       \<and> fst (post_api_booking e (ex_db\<lparr>sessions := [(10, s')]\<rparr>) ex_alice (ex_request ''1'' pkg))
           = SuccessBooking (22, preSave e (ex_db\<lparr>sessions := [(10, s')]\<rparr>) True
                                   (newBooking 10 11 1 (ex_request ''1'' pkg)))"
proof -
  let ?d = "ex_db\<lparr>sessions := [(10, s')]\<rparr>"
  have u: "uniqueIds ?d" using ex_uniqueIds by (simp add: uniqueIds_def)
  have f: "findById (sessions ?d) (req_sessionId (ex_request ''1'' pkg)) = Some s'"
    by (simp add: findById_def ex_request_def)
  have 1: "role (snd ex_alice) \<noteq> Admin" by (simp add: ex_alice_def)
  have 4: "parseInt (req_groupSize (ex_request ''1'' pkg)) = Some 1"
    by (simp add: ex_request_def parseInt_examples)
  have oc: "occupied ?d (req_sessionId (ex_request ''1'' pkg)) = 3"
    using ex_occupied by (simp add: occupied_def confirmedBookings_def ex_request_def)
  have 5: "occupied ?d (req_sessionId (ex_request ''1'' pkg)) + 1 \<le> maxCapacity s'"
    by (simp add: oc assms(2))
  from post_api_booking_success(1) [OF 1 f assms(1) 4 _ _ 5, of e]
  have "fst (post_api_booking e ?d ex_alice (ex_request ''1'' pkg))
           = SuccessBooking (22, preSave e ?d True (newBooking 10 11 1 (ex_request ''1'' pkg)))"
    by (simp add: ex_request_def ex_alice_def ex_db_def)
  with u f show ?thesis by simp
qed

text \<open>
  The hook gives the example booking its deadline in every store that holds the
  example session.
\<close>

lemma ex_preSave:
  assumes "sessions d = sessions ex_db"
  shows "preSave ex_env d True (newBooking 10 11 1 (ex_request ''1'' pkg)) = ex_booking 11 1 pkg"
  using ex_findSession ex_sessionDate
  by (simp add: preSave_def newBooking_def ex_env_def ex_request_def ex_booking_def
      TimeClip_def assms)

subsection \<open>Capacity check of booking creation\<close>

text \<open>
  C1 (as amended).  For a booking request by a client on an existing session whose group
  size parses to an integer from 1 to 4: the request succeeds exactly when the seats
  occupied by the session's confirmed bookings plus the requested group size do not
  exceed the session's capacity and the session is active; otherwise it is answered
  with the not-enough-spots or the session-not-available error, and the store is
  unchanged and no mail is sent.  A successful request adds its group size to the
  occupied seats.  With capacity 4 and 3 seats occupied, a request for 2 seats fails
  with the not-enough-spots error, a request for 1 seat succeeds, and after it no
  request for that session succeeds, whatever its group size and whoever sends it.
\<close>

theorem create_booking_capacity:
  assumes "role (snd currentUser) = Client"
      and "findById (sessions d) (req_sessionId body) = Some s"
      and "parseInt (req_groupSize body) = Some g" and "1 \<le> g" and "g \<le> 4"
  shows
   "(succeeded (fst (post_api_booking e d currentUser body))
       = (occupied d (req_sessionId body) + g \<le> maxCapacity s \<and> isActive s))
    \<and> (\<not> succeeded (fst (post_api_booking e d currentUser body)) \<longrightarrow>
         (fst (post_api_booking e d currentUser body) = Failure 400 NotEnoughSpots
          \<or> fst (post_api_booking e d currentUser body) = Failure 400 SessionNotAvailable)
         \<and> snd (post_api_booking e d currentUser body) = (d, []))
    \<and> (succeeded (fst (post_api_booking e d currentUser body)) \<longrightarrow>
         occupied (fst (snd (post_api_booking e d currentUser body))) (req_sessionId body)
           = occupied d (req_sessionId body) + g)
    \<and> (maxCapacity s = 4 \<and> occupied d (req_sessionId body) = 3 \<and> isActive s \<longrightarrow>
         (g = 2 \<longrightarrow> fst (post_api_booking e d currentUser body) = Failure 400 NotEnoughSpots)
         \<and> (g = 1 \<longrightarrow>
              succeeded (fst (post_api_booking e d currentUser body))
              \<and> (\<forall>e' u' body'. req_sessionId body' = req_sessionId body \<longrightarrow>
                    \<not> succeeded (fst (post_api_booking e'
                          (fst (snd (post_api_booking e d currentUser body))) u' body')))))"
proof -
  let ?sid = "req_sessionId body"
  let ?r = "post_api_booking e d currentUser body"
  have notadmin: "role (snd currentUser) \<noteq> Admin" using assms(1) by simp
  have ok: "succeeded (fst ?r) \<and> occupied (fst (snd ?r)) ?sid = occupied d ?sid + g
            \<and> findById (sessions (fst (snd ?r))) ?sid = Some s"
    if h: "occupied d ?sid + g \<le> maxCapacity s" "isActive s"
  proof -
    note S = post_api_booking_success [OF notadmin assms(2) h(2) assms(3,4,5) h(1), of e]
    have "succeeded (fst ?r)" by (simp add: S(1) succeeded_def)
    moreover have "occupied (fst (snd ?r)) ?sid = occupied d ?sid + g"
      using occupied_snoc [OF S(2), of ?sid] by (simp add: preSave_fields newBooking_def)
    moreover have "findById (sessions (fst (snd ?r))) ?sid = Some s"
      by (simp add: S(3) assms(2))
    ultimately show ?thesis by simp
  qed
  have inactive: "?r = (Failure 400 SessionNotAvailable, d, [])" if "\<not> isActive s"
    using that notadmin assms(2) by (simp add: post_api_booking_def)
  have over: "?r = (Failure 400 NotEnoughSpots, d, [])"
    if "isActive s" "\<not> occupied d ?sid + g \<le> maxCapacity s"
    using that notadmin assms(2,3)
    by (simp add: post_api_booking_def exceedsCapacity_def Let_def)
  have A: "succeeded (fst ?r) = (occupied d ?sid + g \<le> maxCapacity s \<and> isActive s)"
    using ok inactive over by (cases "isActive s"; cases "occupied d ?sid + g \<le> maxCapacity s")
      (auto simp: succeeded_def)
  have B: "\<not> succeeded (fst ?r) \<longrightarrow>
         (fst ?r = Failure 400 NotEnoughSpots \<or> fst ?r = Failure 400 SessionNotAvailable)
         \<and> snd ?r = (d, [])"
    using ok inactive over by (cases "isActive s"; cases "occupied d ?sid + g \<le> maxCapacity s")
      auto
  have C: "succeeded (fst ?r) \<longrightarrow> occupied (fst (snd ?r)) ?sid = occupied d ?sid + g"
    using A ok by blast
  have D: "maxCapacity s = 4 \<and> occupied d ?sid = 3 \<and> isActive s \<longrightarrow>
         (g = 2 \<longrightarrow> fst ?r = Failure 400 NotEnoughSpots)
         \<and> (g = 1 \<longrightarrow> succeeded (fst ?r)
              \<and> (\<forall>e' u' body'. req_sessionId body' = ?sid \<longrightarrow>
                    \<not> succeeded (fst (post_api_booking e' (fst (snd ?r)) u' body'))))"
  proof (intro impI conjI allI)
    assume h: "maxCapacity s = 4 \<and> occupied d ?sid = 3 \<and> isActive s" and "g = 2"
    then show "fst ?r = Failure 400 NotEnoughSpots" using over by simp
  next
    assume h: "maxCapacity s = 4 \<and> occupied d ?sid = 3 \<and> isActive s" and g: "g = 1"
    then show "succeeded (fst ?r)" using ok by simp
  next
    fix e' :: env and u' :: "User doc" and body' :: booking_request
    assume h: "maxCapacity s = 4 \<and> occupied d ?sid = 3 \<and> isActive s" and g: "g = 1"
       and sid: "req_sessionId body' = ?sid"
    from h g ok have 1: "findById (sessions (fst (snd ?r))) (req_sessionId body') = Some s"
      and 2: "maxCapacity s \<le> occupied (fst (snd ?r)) (req_sessionId body')"
      by (simp_all add: sid)
    show "\<not> succeeded (fst (post_api_booking e' (fst (snd ?r)) u' body'))"
      by (rule post_api_booking_full [OF 1 2])
  qed
  from A B C D show ?thesis by blast
qed

theorem create_booking_capacity_witness:
  "role (snd ex_alice) = Client
   \<and> findById (sessions ex_db) (req_sessionId (ex_request ''1'' False)) = Some ex_session
   \<and> parseInt (req_groupSize (ex_request ''1'' False)) = Some 1
   \<and> occupied ex_db 10 = 3 \<and> maxCapacity ex_session = 4 \<and> isActive ex_session
   \<and> succeeded (fst (post_api_booking ex_env ex_db ex_alice (ex_request ''1'' False)))
   \<and> occupied (fst (snd (post_api_booking ex_env ex_db ex_alice (ex_request ''1'' False)))) 10 = 4"
proof -
  have 1: "role (snd ex_alice) = Client" by (simp add: ex_alice_def)
  have 2: "findById (sessions ex_db) (req_sessionId (ex_request ''1'' False)) = Some ex_session"
    by (simp add: ex_request_def ex_findSession)
  have 3: "parseInt (req_groupSize (ex_request ''1'' False)) = Some 1"
    by (simp add: ex_request_def parseInt_examples)
  have 4: "req_sessionId (ex_request ''1'' False) = 10" by (simp add: ex_request_def)
  have 5: "maxCapacity ex_session = 4 \<and> isActive ex_session" by (simp add: ex_session_def)
  show ?thesis
    using create_booking_capacity [OF 1 2 3, of ex_env] 1 2 3 5 ex_occupied
    by (simp add: 4)
qed

theorem create_booking_capacity_counterexample:
  "role (snd ex_alice) = Client
   \<and> findById (sessions ex_db) (req_sessionId (ex_request ''0'' False)) = Some ex_session
   \<and> parseInt (req_groupSize (ex_request ''0'' False)) = Some 0
   \<and> occupied ex_db 10 + 0 \<le> maxCapacity ex_session \<and> isActive ex_session
   \<and> post_api_booking ex_env ex_db ex_alice (ex_request ''0'' False)
       = (Failure 400 ValidationFailed, ex_db, [])"
  by (simp add: ex_occupied ex_findSession parseInt_examples post_api_booking_def
      exceedsCapacity_def validBooking_def newBooking_def ex_request_def ex_alice_def
      ex_session_def)

subsection \<open>Admins cannot book\<close>

text \<open>
  C10.  A booking request by a user whose role is admin is answered with status 403
  and the admins-cannot-book error; the store is unchanged and no mail is sent, whatever
  the session, the group size and the free capacity are.
\<close>

theorem admin_cannot_book:
  "role (snd currentUser) = Admin \<Longrightarrow>
   post_api_booking e d currentUser body = (Failure 403 AdminsCannotBook, d, [])"
  by (simp add: post_api_booking_def)

theorem admin_cannot_book_witness:
  "role (snd ex_tom) = Admin
   \<and> post_api_booking ex_env ex_db ex_tom (ex_request ''1'' False)
       = (Failure 403 AdminsCannotBook, ex_db, [])"
proof -
  have 1: "role (snd ex_tom) = Admin" by (simp add: ex_tom_def)
  show ?thesis using admin_cannot_book [OF 1, of ex_env ex_db "ex_request ''1'' False"] 1 by simp
qed


subsection \<open>Cancellation window\<close>

text \<open>
  C3 (as amended).  For a cancellation request on an existing booking that carries a
  deadline and whose client exists: an admin succeeds at any time; the client who owns
  the booking succeeds when the current time is strictly before the deadline and is
  answered with the cancellation-window-closed error when it is strictly after it, so
  one second before the deadline succeeds and one second after it fails; any other
  client is answered with the not-authorized error whatever the time is.  A failed
  request leaves the store as it is, and after a successful one the booking is gone.
\<close>

theorem cancellation_window:
  assumes "findById (bookings d) bid = Some b"
      and "cancellationDeadline b = Some deadline"
      and "findById (users d) (client b) = Some c"
  shows "(role (snd actor) = Admin \<longrightarrow> fst (delete_api_booking e d actor bid) = Success)
       \<and> (role (snd actor) = Client \<and> fst actor = client b \<and> now e < deadline
            \<longrightarrow> fst (delete_api_booking e d actor bid) = Success)
       \<and> (role (snd actor) = Client \<and> fst actor = client b \<and> deadline < now e
            \<longrightarrow> delete_api_booking e d actor bid = (Failure 400 CancellationWindowClosed, d, []))
       \<and> (role (snd actor) = Client \<and> fst actor \<noteq> client b
            \<longrightarrow> delete_api_booking e d actor bid = (Failure 403 NotAuthorized, d, []))
       \<and> (role (snd actor) = Client \<and> fst actor = client b \<and> now e = deadline - 1000
            \<longrightarrow> fst (delete_api_booking e d actor bid) = Success)
       \<and> (role (snd actor) = Client \<and> fst actor = client b \<and> now e = deadline + 1000
            \<longrightarrow> delete_api_booking e d actor bid = (Failure 400 CancellationWindowClosed, d, []))
       \<and> (fst (delete_api_booking e d actor bid) = Success
            \<longrightarrow> findById (bookings (fst (snd (delete_api_booking e d actor bid)))) bid = None)"
proof -
  have admin: "fst (delete_api_booking e d actor bid) = Success" if "role (snd actor) = Admin"
    by (rule delete_api_booking_passed(1) [OF assms(1)]) (simp_all add: that assms(3))
  have early: "fst (delete_api_booking e d actor bid) = Success"
    if "role (snd actor) = Client" "fst actor = client b" "now e < deadline"
    by (rule delete_api_booking_passed(1) [OF assms(1)])
       (insert that assms(2,3), simp_all add: pastDeadline_def)
  have late: "delete_api_booking e d actor bid = (Failure 400 CancellationWindowClosed, d, [])"
    if "role (snd actor) = Client" "fst actor = client b" "deadline < now e"
    using that assms by (simp add: delete_api_booking_def Let_def pastDeadline_def)
  have other: "delete_api_booking e d actor bid = (Failure 403 NotAuthorized, d, [])"
    if "role (snd actor) = Client" "fst actor \<noteq> client b"
    using that assms by (auto simp add: delete_api_booking_def Let_def)
  have gone: "findById (bookings (fst (snd (delete_api_booking e d actor bid)))) bid = None"
    if "fst (delete_api_booking e d actor bid) = Success"
    using delete_api_booking_SuccessD [OF that]
    by (auto simp: findById_def findByIdAndDelete_def delete_conv')
  from admin early late other gone show ?thesis by simp
qed

theorem cancellation_window_witness:
  "findById (bookings ex_db) 20 = Some (ex_booking 13 2 False)
   \<and> cancellationDeadline (ex_booking 13 2 False) = Some 1727978400000
   \<and> findById (users ex_db) (client (ex_booking 13 2 False)) = Some (snd ex_bob)
   \<and> role (snd ex_bob) = Client \<and> fst ex_bob = client (ex_booking 13 2 False)
   \<and> now (ex_env\<lparr>now := 1727978399000\<rparr>) = 1727978400000 - 1000
   \<and> fst (delete_api_booking (ex_env\<lparr>now := 1727978399000\<rparr>) ex_db ex_bob 20) = Success
   \<and> now (ex_env\<lparr>now := 1727978401000\<rparr>) = 1727978400000 + 1000
   \<and> delete_api_booking (ex_env\<lparr>now := 1727978401000\<rparr>) ex_db ex_bob 20
       = (Failure 400 CancellationWindowClosed, ex_db, [])
   \<and> role (snd ex_tom) = Admin
   \<and> fst (delete_api_booking (ex_env\<lparr>now := 1727978401000\<rparr>) ex_db ex_tom 20) = Success"
proof -
  have 1: "findById (bookings ex_db) 20 = Some (ex_booking 13 2 False)"
    by (simp add: findById_def ex_db_def)
  have 2: "cancellationDeadline (ex_booking 13 2 False) = Some 1727978400000"
    by (simp add: ex_booking_def)
  have 3: "findById (users ex_db) (client (ex_booking 13 2 False)) = Some (snd ex_bob)"
    by (simp add: findById_def ex_db_def ex_booking_def ex_alice_def ex_tom_def ex_bob_def)
  have 4: "role (snd ex_bob) = Client \<and> fst ex_bob = client (ex_booking 13 2 False)"
    by (simp add: ex_bob_def ex_booking_def)
  have 5: "role (snd ex_tom) = Admin" by (simp add: ex_tom_def)
  note T = cancellation_window [OF 1 2 3]
  from T [of ex_bob "ex_env\<lparr>now := 1727978399000\<rparr>"] 4
  have a: "fst (delete_api_booking (ex_env\<lparr>now := 1727978399000\<rparr>) ex_db ex_bob 20) = Success"
    by simp
  from T [of ex_bob "ex_env\<lparr>now := 1727978401000\<rparr>"] 4
  have b: "delete_api_booking (ex_env\<lparr>now := 1727978401000\<rparr>) ex_db ex_bob 20
       = (Failure 400 CancellationWindowClosed, ex_db, [])"
    by simp
  from T [of ex_tom "ex_env\<lparr>now := 1727978401000\<rparr>"] 5
  have c: "fst (delete_api_booking (ex_env\<lparr>now := 1727978401000\<rparr>) ex_db ex_tom 20) = Success"
    by simp
  from 1 2 3 4 5 a b c show ?thesis by simp
qed

theorem cancellation_window_counterexample:
  "findById (bookings ex_db) 20 = Some (ex_booking 13 2 False)
   \<and> cancellationDeadline (ex_booking 13 2 False) = Some 1727978400000
   \<and> role (snd ex_alice) = Client
   \<and> now ex_env < 1727978400000
   \<and> delete_api_booking ex_env ex_db ex_alice 20 = (Failure 403 NotAuthorized, ex_db, [])"
  by (simp add: delete_api_booking_def findById_def Let_def ex_db_def ex_booking_def ex_alice_def
      ex_tom_def ex_bob_def ex_env_def)


text \<open>
  At the deadline instant itself the handler, which tests \<open>now > cancellationDeadline\<close>,
  lets the owner cancel, while the pre-save hook's \<open>canCancel\<close>, which tests
  \<open>now < cancellationDeadline\<close>, is false at that instant.
\<close>

lemma cancellation_at_deadline:
  "fst (delete_api_booking (ex_env\<lparr>now := 1727978400000\<rparr>) ex_db ex_bob 20) = Success
   \<and> canCancel (preSave (ex_env\<lparr>now := 1727978400000\<rparr>) ex_db True (ex_booking 13 2 False))
       = False"
proof -
  have 1: "findById (bookings ex_db) 20 = Some (ex_booking 13 2 False)"
    by (simp add: findById_def ex_db_def)
  have "fst (delete_api_booking (ex_env\<lparr>now := 1727978400000\<rparr>) ex_db ex_bob 20) = Success"
    by (rule delete_api_booking_passed(1) [OF 1])
       (simp_all add: findById_def ex_db_def ex_booking_def ex_alice_def ex_tom_def ex_bob_def
          pastDeadline_def)
  moreover have "canCancel (preSave (ex_env\<lparr>now := 1727978400000\<rparr>) ex_db True
                    (ex_booking 13 2 False)) = False"
    using ex_findSession ex_sessionDate
    by (simp add: preSave_def ex_booking_def ex_env_def TimeClip_def)
  ultimately show ?thesis by simp
qed

subsection \<open>Duplicate sessions\<close>

text \<open>
  C7 (as amended).  For a create-session request by an admin with all required fields
  present, the operation fails with the duplicate-session error if and only if some
  session, active or inactive, already has the same date and the same time string; the
  store is then unchanged.  In particular a request that collides only with an inactive
  session fails with the duplicate-session error.
\<close>

theorem duplicate_session_rejected:
  assumes "role (snd currentUser) = Admin"
      and "req_date body = Some dt" and "req_trainerId body = Some tr"
      and "req_time body \<noteq> []" and "req_exerciseType body \<noteq> []"
      and "req_maxCapacity body \<noteq> []"
  shows "((fst (post_api_session e d currentUser body) = Failure 400 SessionAlreadyExists)
           = (\<exists>s \<in> set (sessions d). date (snd s) = dt \<and> time (snd s) = req_time body))
       \<and> (fst (post_api_session e d currentUser body) = Failure 400 SessionAlreadyExists
            \<longrightarrow> snd (post_api_session e d currentUser body) = (d, []))
       \<and> (\<forall>s \<in> set (sessions d).
             \<not> isActive (snd s) \<and> date (snd s) = dt \<and> time (snd s) = req_time body
             \<longrightarrow> fst (post_api_session e d currentUser body) = Failure 400 SessionAlreadyExists)"
proof -
  let ?r = "post_api_session e d currentUser body"
  let ?dup = "\<exists>s \<in> set (sessions d). date (snd s) = dt \<and> time (snd s) = req_time body"
  have found: "?r = (Failure 400 SessionAlreadyExists, d, [])" if "?dup"
  proof -
    from that have "findOne_date_time d dt (req_time body) \<noteq> None"
      unfolding findOne_date_time_def find_None_iff by blast
    then obtain x where "findOne_date_time d dt (req_time body) = Some x" by blast
    with assms show ?thesis by (simp add: post_api_session_def)
  qed
  have fresh: "fst ?r \<noteq> Failure 400 SessionAlreadyExists" if "\<not> ?dup"
  proof -
    from that have "findOne_date_time d dt (req_time body) = None"
      unfolding findOne_date_time_def find_None_iff by blast
    with assms show ?thesis
      by (simp add: post_api_session_def Let_def split: option.splits)
  qed
  from found fresh show ?thesis by (cases ?dup) auto
qed

theorem duplicate_session_rejected_witness:
  "role (snd ex_tom) = Admin
   \<and> req_date ex_session_request = Some 1728000000000
   \<and> req_trainerId ex_session_request = Some 12
   \<and> req_time ex_session_request = ''18:00''
   \<and> req_exerciseType ex_session_request = ''body-health''
   \<and> req_maxCapacity ex_session_request = ''4''
   \<and> fst (post_api_session ex_env ex_db ex_tom ex_session_request)
        = Failure 400 SessionAlreadyExists
   \<and> fst (post_api_session ex_env (ex_db\<lparr>sessions := []\<rparr>) ex_tom ex_session_request)
        \<noteq> Failure 400 SessionAlreadyExists"
proof -
  have 2: "req_date ex_session_request = Some 1728000000000"
    and 3: "req_trainerId ex_session_request = Some 12"
    and 4: "req_time ex_session_request \<noteq> []"
    and 5: "req_exerciseType ex_session_request \<noteq> []"
    and 6: "req_maxCapacity ex_session_request \<noteq> []"
    by (simp_all add: ex_session_request_def)
  note T = duplicate_session_rejected [OF ex_tom_admin 2 3 4 5 6]
  from T [of ex_env ex_db]
  have a: "fst (post_api_session ex_env ex_db ex_tom ex_session_request)
        = Failure 400 SessionAlreadyExists"
    by (simp add: ex_db_def ex_session_def ex_session_request_def)
  from T [of ex_env "ex_db\<lparr>sessions := []\<rparr>"]
  have b: "fst (post_api_session ex_env (ex_db\<lparr>sessions := []\<rparr>) ex_tom ex_session_request)
        \<noteq> Failure 400 SessionAlreadyExists"
    by simp
  from ex_tom_admin a b show ?thesis by (simp add: ex_session_request_def)
qed

theorem duplicate_session_rejected_counterexample:
  "role (snd ex_tom) = Admin
   \<and> activeSessionAt ex_db_inactive 1728000000000 ''18:00'' = False
   \<and> req_date ex_session_request = Some 1728000000000
   \<and> req_time ex_session_request = ''18:00''
   \<and> post_api_session ex_env ex_db_inactive ex_tom ex_session_request
        = (Failure 400 SessionAlreadyExists, ex_db_inactive, [])"
  by (simp add: post_api_session_def findOne_date_time_def activeSessionAt_def ex_db_inactive_def
      ex_session_request_def ex_tom_def ex_session_def)


subsection \<open>Deleting a session\<close>



subsection \<open>Reminder window\<close>

text \<open>
  C4.  The claim is that a scan at time \<open>now\<close> sends a reminder for a session starting at
  \<open>T\<close> exactly when \<open>T\<close> lies in \<open>[now + 2h - 7min, now + 2h + 8min]\<close>.  The scheduler
  does not do that: the session of the example store starts at 18:00, and a scan at
  08:00 of that day, ten hours before, sends the reminders of both its bookings, and so
  does a scan at 20:00, two hours after the start.  Neither time is in the window.
\<close>

theorem reminder_sent_outside_window:
  "sessionDateTime utcZone ex_session = 1728064800000
   \<and> inReminderWindow 1728028800000 1728064800000 = False
   \<and> sendSessionReminders (ex_scan_env 1728028800000) ex_db
       = [(SessionReminder, 20, Delivered), (SessionReminder, 21, Delivered)]
   \<and> inReminderWindow 1728072000000 1728064800000 = False
   \<and> sendSessionReminders (ex_scan_env 1728072000000) ex_db
       = [(SessionReminder, 20, Delivered), (SessionReminder, 21, Delivered)]"
proof -
  have a: "sendSessionReminders (ex_scan_env 1728028800000) ex_db
       = [(SessionReminder, 20, Delivered), (SessionReminder, 21, Delivered)]"
    by (rule ex_scan) (simp_all add: startOfDay_def endOfDay_def utcZone_simps clock_defs)
  have b: "sendSessionReminders (ex_scan_env 1728072000000) ex_db
       = [(SessionReminder, 20, Delivered), (SessionReminder, 21, Delivered)]"
    by (rule ex_scan) (simp_all add: startOfDay_def endOfDay_def utcZone_simps clock_defs)
  show ?thesis
    by (simp add: a b ex_sessionDateTime inReminderWindow_def msPerHour_def msPerMinute_def)
qed


subsection \<open>Repeated scans\<close>

text \<open>
  C5.  The claim is that two scans inside a session's reminder range send a booking at
  most one reminder in total.  The scheduler sends one on each scan: scans at 16:00:00
  and at 16:01:00, both inside the range of the 18:00 session, send booking 20 two
  reminders.
\<close>

theorem reminder_sent_twice:
  "inReminderWindow 1728057600000 (sessionDateTime utcZone ex_session)
   \<and> inReminderWindow 1728057660000 (sessionDateTime utcZone ex_session)
   \<and> remindersFor 20 (sendSessionReminders (ex_scan_env 1728057600000) ex_db
                      @ sendSessionReminders (ex_scan_env 1728057660000) ex_db)
       = [(SessionReminder, 20, Delivered), (SessionReminder, 20, Delivered)]"
proof -
  have a: "sendSessionReminders (ex_scan_env 1728057600000) ex_db
       = [(SessionReminder, 20, Delivered), (SessionReminder, 21, Delivered)]"
    by (rule ex_scan) (simp_all add: startOfDay_def endOfDay_def utcZone_simps clock_defs)
  have b: "sendSessionReminders (ex_scan_env 1728057660000) ex_db
       = [(SessionReminder, 20, Delivered), (SessionReminder, 21, Delivered)]"
    by (rule ex_scan) (simp_all add: startOfDay_def endOfDay_def utcZone_simps clock_defs)
  show ?thesis
    by (simp add: a b ex_sessionDateTime inReminderWindow_def remindersFor_def msPerHour_def
        msPerMinute_def)
qed

subsection \<open>Cancellation deadline\<close>

text \<open>
  C2.  When a booking is created on a session whose time string is two digits, a colon
  and two digits, the session's start is the wall-clock time \<open>hh:mm\<close> (the values of the
  digits, the minutes included) on the local day of the session's date, converted to
  an instant with the zone's offsets (so on a day with a daylight-saving change the
  offset is the one in force at the start, not at midnight).  The stored booking's
  cancellationDeadline is that start minus exactly 86400000 ms when both instants are
  in the range of \<open>Date\<close>; otherwise the booking has no deadline.  The deadline is set
  by the creating save only: saving the booking again leaves it as it is, and after any
  later sequence of requests and edits of the sessions collection the booking, as long
  as it exists, still carries the same deadline.
\<close>

theorem cancellation_deadline_fixed:
  assumes "uniqueIds d"
      and "fst (post_api_booking e d currentUser body) = SuccessBooking (bid, b)"
      and "findById (sessions d) (req_sessionId body) = Some s"
      and "time s = [h1, h2, CHR '':'', m1, m2]"
      and "set [h1, h2, m1, m2] \<subseteq> set ''0123456789''"
      and "hh = 10 * (int (of_char h1) - 48) + (int (of_char h2) - 48)"
      and "mm = 10 * (int (of_char m1) - 48) + (int (of_char m2) - 48)"
      and "wall = ((date s + utcOffset (zone e) (date s)) div 86400000) * 86400000
                    + hh * 3600000 + mm * 60000"
      and "start = wall - localOffset (zone e) wall"
  shows "cancellationDeadline b =
           (if \<bar>start\<bar> \<le> 8640000000000000 \<and> \<bar>start - 86400000\<bar> \<le> 8640000000000000
            then Some (start - 86400000) else None)
       \<and> findById (bookings (fst (snd (post_api_booking e d currentUser body)))) bid = Some b
       \<and> (\<forall>e' d'. preSave e' d' False b = b)
       \<and> (\<forall>steps b'.
            findById (bookings (run (fst (snd (post_api_booking e d currentUser body))) steps)) bid
              = Some b'
            \<longrightarrow> cancellationDeadline b' = cancellationDeadline b)"
proof -
  let ?d1 = "fst (snd (post_api_booking e d currentUser body))"
  from post_api_booking_SuccessD [OF assms(2)] assms(3)
  obtain g where na: "role (snd currentUser) \<noteq> Admin" and act: "isActive s"
    and g: "parseInt (req_groupSize body) = Some g" "1 \<le> g" "g \<le> 4"
    and cap: "occupied d (req_sessionId body) + g \<le> maxCapacity s"
    and bid: "bid = nextId d"
    and b: "b = preSave e d True (newBooking (req_sessionId body) (fst currentUser) g body)"
    by auto
  note S = post_api_booking_success [OF na assms(3) act g cap, of e]
  have sd: "sessionDate (zone e) s = TimeClip start"
    unfolding sessionDate_HHMM [OF assms(4,5)]
    by (simp add: assms(6-9) UTC_def LocalTime_def Day_def msPerDay_def msPerHour_def
        msPerMinute_def)
  have deadline: "cancellationDeadline b =
           (if \<bar>start\<bar> \<le> 8640000000000000 \<and> \<bar>start - 86400000\<bar> \<le> 8640000000000000
            then Some (start - 86400000) else None)"
    by (auto simp add: b preSave_def newBooking_def assms(3) sd TimeClip_def)
  have stored: "findById (bookings ?d1) bid = Some b"
    unfolding S(2) bid b [symmetric]
    by (rule findById_snoc_new) (rule uniqueIds_fresh [OF assms(1)])
  have resave: "\<forall>e' d'. preSave e' d' False b = b"
    by (simp add: preSave_def)
  have u1: "uniqueIds ?d1"
    using handle_uniqueIds [OF assms(1), of e "PostBooking currentUser body"] by simp
  have n1: "bid < nextId ?d1"
    using post_api_booking_bookings [of e d currentUser body] S(2) by (auto simp: bid)
  have later: "cancellationDeadline b' = cancellationDeadline b"
    if "findById (bookings (run ?d1 steps)) bid = Some b'" for steps b'
    using run_keeps_deadline [OF u1 n1 that] stored by simp
  from deadline stored resave later show ?thesis by blast
qed

theorem cancellation_deadline_fixed_witness:
  "uniqueIds ex_db
   \<and> fst (post_api_booking ex_env ex_db ex_alice (ex_request ''1'' False))
       = SuccessBooking (22, ex_booking 11 1 False)
   \<and> findById (sessions ex_db) (req_sessionId (ex_request ''1'' False)) = Some ex_session
   \<and> time ex_session = ''18:00''
   \<and> cancellationDeadline (ex_booking 11 1 False) = Some (1728064800000 - 86400000)
   \<and> findById (bookings (fst (snd (post_api_booking ex_env ex_db ex_alice
         (ex_request ''1'' False))))) 22 = Some (ex_booking 11 1 False)
   \<and> uniqueIds ex_db_morning
   \<and> fst (post_api_booking ex_env ex_db_morning ex_alice (ex_request ''1'' False))
       = SuccessBooking (22, preSave ex_env ex_db_morning True
                               (newBooking 10 11 1 (ex_request ''1'' False)))
   \<and> findById (sessions ex_db_morning) (req_sessionId (ex_request ''1'' False))
       = Some (ex_session\<lparr>time := ''09:30''\<rparr>)
   \<and> cancellationDeadline (preSave ex_env ex_db_morning True
         (newBooking 10 11 1 (ex_request ''1'' False))) = Some (1728034200000 - 86400000)
   \<and> uniqueIds ex_db_dst
   \<and> fst (post_api_booking (ex_env\<lparr>zone := ex_zone_dst\<rparr>) ex_db_dst ex_alice
          (ex_request ''1'' False))
       = SuccessBooking (22, preSave (ex_env\<lparr>zone := ex_zone_dst\<rparr>) ex_db_dst True
                               (newBooking 10 11 1 (ex_request ''1'' False)))
   \<and> findById (sessions ex_db_dst) (req_sessionId (ex_request ''1'' False))
       = Some (ex_session\<lparr>date := 1729987200000\<rparr>)
   \<and> cancellationDeadline (preSave (ex_env\<lparr>zone := ex_zone_dst\<rparr>) ex_db_dst True
         (newBooking 10 11 1 (ex_request ''1'' False))) = Some (1730048400000 - 86400000)"
proof -
  have digits: "set [CHR ''1'', CHR ''8'', CHR ''0'', CHR ''0''] \<subseteq> set ''0123456789''"
    "set [CHR ''0'', CHR ''9'', CHR ''3'', CHR ''0''] \<subseteq> set ''0123456789''"
    by simp_all
  \<comment> \<open>18:00, server in UTC\<close>
  have a2: "fst (post_api_booking ex_env ex_db ex_alice (ex_request ''1'' False))
             = SuccessBooking (22, ex_booking 11 1 False)"
    by (simp add: ex_post_booking)
  have a3: "findById (sessions ex_db) (req_sessionId (ex_request ''1'' False)) = Some ex_session"
    by (simp add: ex_request_def ex_findSession)
  have a4: "time ex_session = [CHR ''1'', CHR ''8'', CHR '':'', CHR ''0'', CHR ''0'']"
    by (simp add: ex_session_def)
  from cancellation_deadline_fixed [OF ex_uniqueIds a2 a3 a4 digits(1) refl refl refl refl]
  have a: "cancellationDeadline (ex_booking 11 1 False) = Some (1728064800000 - 86400000)
     \<and> findById (bookings (fst (snd (post_api_booking ex_env ex_db ex_alice
         (ex_request ''1'' False))))) 22 = Some (ex_booking 11 1 False)"
    by (simp add: ex_env_def utcZone_def ex_session_def)
  \<comment> \<open>09:30, server in UTC\<close>
  have act: "isActive (ex_session\<lparr>time := ''09:30''\<rparr>)"
    "maxCapacity (ex_session\<lparr>time := ''09:30''\<rparr>) = 4"
    "isActive (ex_session\<lparr>date := 1729987200000\<rparr>)"
    "maxCapacity (ex_session\<lparr>date := 1729987200000\<rparr>) = 4"
    by (simp_all add: ex_session_def)
  from ex_post_other_session [OF act(1,2), of False ex_env, folded ex_db_morning_def]
  have M: "uniqueIds ex_db_morning"
    "findById (sessions ex_db_morning) (req_sessionId (ex_request ''1'' False))
       = Some (ex_session\<lparr>time := ''09:30''\<rparr>)"
    "fst (post_api_booking ex_env ex_db_morning ex_alice (ex_request ''1'' False))
       = SuccessBooking (22, preSave ex_env ex_db_morning True
                               (newBooking 10 11 1 (ex_request ''1'' False)))"
    by simp_all
  have b4: "time (ex_session\<lparr>time := ''09:30''\<rparr>)
              = [CHR ''0'', CHR ''9'', CHR '':'', CHR ''3'', CHR ''0'']"
    by simp
  from cancellation_deadline_fixed [OF M(1) M(3) M(2) b4 digits(2) refl refl refl refl]
  have b: "cancellationDeadline (preSave ex_env ex_db_morning True
         (newBooking 10 11 1 (ex_request ''1'' False))) = Some (1728034200000 - 86400000)"
    by (simp add: ex_env_def utcZone_def ex_session_def)
  \<comment> \<open>18:00 on the day the clocks go back\<close>
  from ex_post_other_session [OF act(3,4), of False "ex_env\<lparr>zone := ex_zone_dst\<rparr>",
      folded ex_db_dst_def]
  have D: "uniqueIds ex_db_dst"
    "findById (sessions ex_db_dst) (req_sessionId (ex_request ''1'' False))
       = Some (ex_session\<lparr>date := 1729987200000\<rparr>)"
    "fst (post_api_booking (ex_env\<lparr>zone := ex_zone_dst\<rparr>) ex_db_dst ex_alice
          (ex_request ''1'' False))
       = SuccessBooking (22, preSave (ex_env\<lparr>zone := ex_zone_dst\<rparr>) ex_db_dst True
                               (newBooking 10 11 1 (ex_request ''1'' False)))"
    by simp_all
  have c4: "time (ex_session\<lparr>date := 1729987200000\<rparr>)
              = [CHR ''1'', CHR ''8'', CHR '':'', CHR ''0'', CHR ''0'']"
    by (simp add: ex_session_def)
  from cancellation_deadline_fixed [OF D(1) D(3) D(2) c4 digits(1) refl refl refl refl]
  have c: "cancellationDeadline (preSave (ex_env\<lparr>zone := ex_zone_dst\<rparr>) ex_db_dst True
         (newBooking 10 11 1 (ex_request ''1'' False))) = Some (1730048400000 - 86400000)"
    by (simp add: ex_zone_dst_def)
  have t: "time ex_session = ''18:00''" by (simp add: ex_session_def)
  from ex_uniqueIds a2 a3 t a M b D c show ?thesis by simp
qed

text \<open>
  A time string whose hour carries the start out of the range of \<open>Date\<close> leaves the
  booking without a deadline.
\<close>

lemma deadline_out_of_range:
  "cancellationDeadline (preSave ex_env
      (ex_db\<lparr>sessions := [(10, ex_session\<lparr>time := ''2400000000:00''\<rparr>)]\<rparr>) True
      (newBooking 10 11 1 (ex_request ''1'' False))) = None"
  by (simp add: preSave_def newBooking_def findById_def sessionDate_def parse_defs setHours4_def
      TimeClip_def ex_env_def utcZone_simps MakeDate_def MakeTime_def Day_def msPerDay_def
      msPerHour_def msPerMinute_def ex_session_def)

subsection \<open>Package counter\<close>

text \<open>
  C6.  A successful package-mode booking by a client sets the client's activeSessions
  to its old value plus 1 and the packageExpiry to the request's time moved by the
  session's packageDuration in calendar days of the server's zone: the same wall-clock
  time that many days later, converted with the offset in force then (for a duration
  of 0 the request's time itself), provided that instant is in the range of \<open>Date\<close>.
  Cancelling that booking afterwards, by whoever is allowed to, puts activeSessions
  back to the value before the booking (the expiry stays).  In any store, a successful
  cancellation of a package-mode booking subtracts exactly 1 from the client's
  activeSessions, whatever the count is: there is no lower bound.
\<close>

theorem package_booking_roundtrip:
  assumes "uniqueIds d"
      and "fst (post_api_booking e d currentUser body) = SuccessBooking (bid, b)"
      and "req_isPackageBooking body"
      and "findById (sessions d) (req_sessionId body) = Some s"
      and "findById (users d) (fst currentUser) = Some u"
      and "wall = now e + utcOffset (zone e) (now e) + packageDuration s * 86400000"
      and "expiry = (if packageDuration s = 0 then now e else wall - localOffset (zone e) wall)"
      and "\<bar>expiry\<bar> \<le> 8640000000000000"
  shows "findById (users (fst (snd (post_api_booking e d currentUser body)))) (fst currentUser)
           = Some (u\<lparr>activeSessions := activeSessions u + 1, packageExpiry := Some expiry\<rparr>)
       \<and> (\<forall>e' actor.
            fst (delete_api_booking e' (fst (snd (post_api_booking e d currentUser body))) actor bid)
              = Success
            \<longrightarrow> findById (users (fst (snd (delete_api_booking e'
                     (fst (snd (post_api_booking e d currentUser body))) actor bid))))
                   (fst currentUser)
                = Some (u\<lparr>packageExpiry := Some expiry\<rparr>))
       \<and> (\<forall>e' d' actor k bk c.
            findById (bookings d') k = Some bk \<and> isPackageBooking bk
            \<and> findById (users d') (client bk) = Some c
            \<and> fst (delete_api_booking e' d' actor k) = Success
            \<longrightarrow> findById (users (fst (snd (delete_api_booking e' d' actor k)))) (client bk)
                = Some (c\<lparr>activeSessions := activeSessions c - 1\<rparr>))"
proof -
  let ?d1 = "fst (snd (post_api_booking e d currentUser body))"
  from post_api_booking_SuccessD [OF assms(2)] assms(4)
  obtain g where na: "role (snd currentUser) \<noteq> Admin" and act: "isActive s"
    and g: "parseInt (req_groupSize body) = Some g" "1 \<le> g" "g \<le> 4"
    and cap: "occupied d (req_sessionId body) + g \<le> maxCapacity s"
    and bid: "bid = nextId d"
    and b: "b = preSave e d True (newBooking (req_sessionId body) (fst currentUser) g body)"
    by auto
  note S = post_api_booking_success [OF na assms(4) act g cap, of e]
  have ex: "addDays (zone e) (now e) (packageDuration s) = Some expiry"
  proof (cases "packageDuration s = 0")
    case True
    with assms(7,8) show ?thesis by (simp add: addDays_value TimeClip_def)
  next
    case False
    with assms(7,8) have "expiry = wall - localOffset (zone e) wall"
      and "\<bar>wall - localOffset (zone e) wall\<bar> \<le> 8640000000000000" by simp_all
    with False show ?thesis
      unfolding assms(6) by (simp add: addDays_value TimeClip_def)
  qed
  have created: "findById (users ?d1) (fst currentUser) = Some (applyPackageBooking e s u)"
    by (simp add: S(4) assms(3,5) findById_findByIdAndUpdate)
  have stored: "findById (bookings ?d1) bid = Some b"
    unfolding S(2) bid b [symmetric]
    by (rule findById_snoc_new) (rule uniqueIds_fresh [OF assms(1)])
  have pk: "isPackageBooking b" and cl: "client b = fst currentUser"
    by (simp_all add: b preSave_fields newBooking_def assms(3))
  have general: "findById (users (fst (snd (delete_api_booking e' d' actor k)))) (client bk)
                   = Some (applyPackageCancellation c)"
    if "findById (bookings d') k = Some bk" "isPackageBooking bk"
       "findById (users d') (client bk) = Some c"
       "fst (delete_api_booking e' d' actor k) = Success"
    for e' d' actor k bk c
    using delete_api_booking_SuccessD [OF that(4)] that(1,2,3)
    by (auto simp: findById_findByIdAndUpdate)
  have restored: "findById (users (fst (snd (delete_api_booking e' ?d1 actor bid)))) (fst currentUser)
                = Some (u\<lparr>packageExpiry := Some expiry\<rparr>)"
    if "fst (delete_api_booking e' ?d1 actor bid) = Success" for e' actor
    using general [OF stored pk _ that] created
    by (simp add: cl applyPackageBooking_def applyPackageCancellation_def ex)
  from created restored general show ?thesis
    by (simp add: applyPackageBooking_def applyPackageCancellation_def ex)
qed

theorem package_booking_roundtrip_witness:
  "uniqueIds ex_db
   \<and> fst (post_api_booking ex_env ex_db ex_alice (ex_request ''1'' True))
       = SuccessBooking (22, ex_booking 11 1 True)
   \<and> req_isPackageBooking (ex_request ''1'' True)
   \<and> findById (sessions ex_db) (req_sessionId (ex_request ''1'' True)) = Some ex_session
   \<and> findById (users ex_db) (fst ex_alice) = Some (snd ex_alice)
   \<and> activeSessions (snd ex_alice) = 0
   \<and> findById (users (fst (snd (post_api_booking ex_env ex_db ex_alice (ex_request ''1'' True)))))
        (fst ex_alice)
       = Some ((snd ex_alice)\<lparr>activeSessions := 1, packageExpiry := Some 1735676000000\<rparr>)
   \<and> fst (delete_api_booking ex_env
          (fst (snd (post_api_booking ex_env ex_db ex_alice (ex_request ''1'' True)))) ex_tom 22)
       = Success
   \<and> findById (users (fst (snd (delete_api_booking ex_env
          (fst (snd (post_api_booking ex_env ex_db ex_alice (ex_request ''1'' True)))) ex_tom 22))))
        (fst ex_alice)
       = Some ((snd ex_alice)\<lparr>packageExpiry := Some 1735676000000\<rparr>)
   \<and> fst (post_api_booking (ex_env\<lparr>zone := ex_zone_dst\<rparr>) ex_db ex_alice (ex_request ''1'' True))
       = SuccessBooking (22, preSave (ex_env\<lparr>zone := ex_zone_dst\<rparr>) ex_db True
                               (newBooking 10 11 1 (ex_request ''1'' True)))
   \<and> findById (users (fst (snd (post_api_booking (ex_env\<lparr>zone := ex_zone_dst\<rparr>) ex_db ex_alice
          (ex_request ''1'' True))))) (fst ex_alice)
       = Some ((snd ex_alice)\<lparr>activeSessions := 1, packageExpiry := Some 1735679600000\<rparr>)"
proof -
  let ?d1 = "fst (snd (post_api_booking ex_env ex_db ex_alice (ex_request ''1'' True)))"
  let ?e2 = "ex_env\<lparr>zone := ex_zone_dst\<rparr>"
  have 2: "fst (post_api_booking ex_env ex_db ex_alice (ex_request ''1'' True))
             = SuccessBooking (22, ex_booking 11 1 True)"
    by (simp add: ex_post_booking)
  have 3: "req_isPackageBooking (ex_request ''1'' True)" by (simp add: ex_request_def)
  have 4: "findById (sessions ex_db) (req_sessionId (ex_request ''1'' True)) = Some ex_session"
    by (simp add: ex_request_def ex_findSession)
  have 5: "findById (users ex_db) (fst ex_alice) = Some (snd ex_alice)"
    by (simp add: findById_def ex_db_def ex_alice_def)
  have 6: "activeSessions (snd ex_alice) = 0" by (simp add: ex_alice_def)
  have tom: "role (snd ex_tom) = Admin" by (simp add: ex_tom_def)
  have cl: "client (ex_booking 11 1 True) = 11" by (simp add: ex_booking_def)
  have 7: "fst (delete_api_booking ex_env ?d1 ex_tom 22) = Success"
    by (rule delete_api_booking_passed(1) [OF ex_stored]) (simp_all add: tom cl ex_users_after)
  have r1: "\<bar>if packageDuration ex_session = 0 then now ex_env
             else (now ex_env + utcOffset (zone ex_env) (now ex_env)
                     + packageDuration ex_session * 86400000)
                  - localOffset (zone ex_env) (now ex_env + utcOffset (zone ex_env) (now ex_env)
                     + packageDuration ex_session * 86400000)\<bar> \<le> 8640000000000000"
    by (simp add: ex_env_def ex_session_def utcZone_def)
  note T = package_booking_roundtrip [OF ex_uniqueIds 2 3 4 5 refl refl r1]
  from T have a: "findById (users ?d1) (fst ex_alice)
       = Some ((snd ex_alice)\<lparr>activeSessions := 1, packageExpiry := Some 1735676000000\<rparr>)"
    by (simp add: 6 ex_env_def ex_session_def utcZone_def)
  from T [THEN conjunct2, THEN conjunct1, rule_format, OF 7]
  have b: "findById (users (fst (snd (delete_api_booking ex_env ?d1 ex_tom 22))))
        (fst ex_alice) = Some ((snd ex_alice)\<lparr>packageExpiry := Some 1735676000000\<rparr>)"
    by (simp add: ex_env_def ex_session_def utcZone_def)
  have same: "ex_db\<lparr>sessions := [(10, ex_session)]\<rparr> = ex_db" by (simp add: ex_db_def)
  have act: "isActive ex_session" "maxCapacity ex_session = 4" by (simp_all add: ex_session_def)
  from ex_post_other_session [OF act, of True ?e2, unfolded same]
  have c2: "fst (post_api_booking ?e2 ex_db ex_alice (ex_request ''1'' True))
       = SuccessBooking (22, preSave ?e2 ex_db True (newBooking 10 11 1 (ex_request ''1'' True)))"
    by simp
  have r2: "\<bar>if packageDuration ex_session = 0 then now ?e2
             else (now ?e2 + utcOffset (zone ?e2) (now ?e2)
                     + packageDuration ex_session * 86400000)
                  - localOffset (zone ?e2) (now ?e2 + utcOffset (zone ?e2) (now ?e2)
                     + packageDuration ex_session * 86400000)\<bar> \<le> 8640000000000000"
    by (simp add: ex_env_def ex_session_def ex_zone_dst_def)
  from package_booking_roundtrip [OF ex_uniqueIds c2 3 4 5 refl refl r2]
  have c: "findById (users (fst (snd (post_api_booking ?e2 ex_db ex_alice
          (ex_request ''1'' True))))) (fst ex_alice)
       = Some ((snd ex_alice)\<lparr>activeSessions := 1, packageExpiry := Some 1735679600000\<rparr>)"
    by (simp add: 6 ex_env_def ex_session_def ex_zone_dst_def)
  from ex_uniqueIds 2 3 4 5 6 a 7 b c2 c show ?thesis by blast
qed

subsection \<open>Mail failures stay outside the booking operations\<close>

text \<open>
  C9.  A booking creation that passes the handler's guards (a client, an active
  session, a group size from 1 to 4 that fits) answers with success and the new
  booking, and the store afterwards holds that booking under the new id together with
  the package update of a package booking, for every mail transport: when the
  transport delivers, when it rejects a mail, and when the trainer's document is
  missing so that the sender of the trainer's mail throws.  A booking cancellation that
  passes the guards (the booking exists with its client, and the caller is an admin or
  the client before the deadline) answers with success, the booking is gone from the
  store and the client's activeSessions is one less for a package booking, again for
  every transport and also when the session's document is missing and building the
  mail throws.  The mail attempts of both operations are listed with their outcomes;
  none of them changes the response or the store.
\<close>

theorem notification_failure_isolated:
  assumes "uniqueIds d"
  shows "(role (snd currentUser) \<noteq> Admin
          \<and> findById (sessions d) (req_sessionId body) = Some s \<and> isActive s
          \<and> parseInt (req_groupSize body) = Some g \<and> 1 \<le> g \<and> g \<le> 4
          \<and> occupied d (req_sessionId body) + g \<le> maxCapacity s
          \<and> b = preSave e d True (newBooking (req_sessionId body) (fst currentUser) g body)
          \<longrightarrow> (\<forall>transport.
                post_api_booking (e\<lparr>sendMail := transport\<rparr>) d currentUser body
                  = (SuccessBooking (nextId d, b),
                     d\<lparr>bookings := bookings d @ [(nextId d, b)], nextId := Suc (nextId d),
                       users := (if req_isPackageBooking body
                                 then findByIdAndUpdate (fst currentUser) (applyPackageBooking e s)
                                        (users d)
                                 else users d)\<rparr>,
                     [(BookingConfirmation, nextId d,
                       if transport BookingConfirmation (nextId d) then Delivered else Rejected),
                      (TrainerNotification, nextId d,
                       if findById (users d) (createdBy s) = None then Threw
                       else if transport TrainerNotification (nextId d) then Delivered
                       else Rejected)])
                \<and> findById (bookings (fst (snd
                      (post_api_booking (e\<lparr>sendMail := transport\<rparr>) d currentUser body))))
                      (nextId d) = Some b))
       \<and> (findById (bookings d) bid = Some bk
          \<and> (role (snd actor) = Admin
               \<or> client bk = fst actor \<and> \<not> pastDeadline (now e) (cancellationDeadline bk))
          \<and> findById (users d) (client bk) = Some c
          \<longrightarrow> (\<forall>transport.
                delete_api_booking (e\<lparr>sendMail := transport\<rparr>) d actor bid
                  = (Success,
                     d\<lparr>bookings := findByIdAndDelete bid (bookings d),
                       users := (if isPackageBooking bk
                                 then findByIdAndUpdate (client bk) applyPackageCancellation (users d)
                                 else users d)\<rparr>,
                     [(CancellationNotification, bid,
                       if findById (sessions d) (session bk) = None then Threw
                       else if transport CancellationNotification bid then Delivered
                       else Rejected)])
                \<and> findById (bookings (fst (snd
                      (delete_api_booking (e\<lparr>sendMail := transport\<rparr>) d actor bid)))) bid = None
                \<and> findById (users (fst (snd
                      (delete_api_booking (e\<lparr>sendMail := transport\<rparr>) d actor bid)))) (client bk)
                    = Some (if isPackageBooking bk then c\<lparr>activeSessions := activeSessions c - 1\<rparr>
                            else c)))"
proof -
  have create:
    "post_api_booking (e\<lparr>sendMail := transport\<rparr>) d currentUser body
       = (SuccessBooking (nextId d, b),
          d\<lparr>bookings := bookings d @ [(nextId d, b)], nextId := Suc (nextId d),
            users := (if req_isPackageBooking body
                      then findByIdAndUpdate (fst currentUser) (applyPackageBooking e s) (users d)
                      else users d)\<rparr>,
          [(BookingConfirmation, nextId d,
            if transport BookingConfirmation (nextId d) then Delivered else Rejected),
           (TrainerNotification, nextId d,
            if findById (users d) (createdBy s) = None then Threw
            else if transport TrainerNotification (nextId d) then Delivered else Rejected)])"
    if "role (snd currentUser) \<noteq> Admin"
       "findById (sessions d) (req_sessionId body) = Some s" "isActive s"
       "parseInt (req_groupSize body) = Some g" "1 \<le> g" "g \<le> 4"
       "occupied d (req_sessionId body) + g \<le> maxCapacity s"
       "b = preSave e d True (newBooking (req_sessionId body) (fst currentUser) g body)"
    for transport
    using that
    by (simp add: post_api_booking_def exceedsCapacity_def validBooking_def newBooking_def
        Let_def preSave_sendMail applyPackageBooking_sendMail sendBookingConfirmation_def
        sendEmail_def split: option.splits)
  have stored: "findById (bookings d @ [(nextId d, b)]) (nextId d) = Some b"
    by (rule findById_snoc_new) (rule uniqueIds_fresh [OF assms])
  have cancel:
    "delete_api_booking (e\<lparr>sendMail := transport\<rparr>) d actor bid
       = (Success,
          d\<lparr>bookings := findByIdAndDelete bid (bookings d),
            users := (if isPackageBooking bk
                      then findByIdAndUpdate (client bk) applyPackageCancellation (users d)
                      else users d)\<rparr>,
          [(CancellationNotification, bid,
            if findById (sessions d) (session bk) = None then Threw
            else if transport CancellationNotification bid then Delivered else Rejected)])"
    if "findById (bookings d) bid = Some bk"
       "role (snd actor) = Admin
        \<or> client bk = fst actor \<and> \<not> pastDeadline (now e) (cancellationDeadline bk)"
       "findById (users d) (client bk) = Some c"
    for transport
    using that
    by (auto simp add: delete_api_booking_def Let_def sendCancellationNotification_def
        sendEmail_def split: option.splits)
  have gone: "findById (findByIdAndDelete bid (bookings d)) bid = None"
    by (simp add: findById_def findByIdAndDelete_def delete_conv)
  have counter: "findById (if isPackageBooking bk
                      then findByIdAndUpdate (client bk) applyPackageCancellation (users d)
                      else users d) (client bk)
       = Some (if isPackageBooking bk then c\<lparr>activeSessions := activeSessions c - 1\<rparr> else c)"
    if "findById (users d) (client bk) = Some c"
    using that by (simp add: findById_findByIdAndUpdate applyPackageCancellation_def)
  show ?thesis
  proof (intro conjI impI allI)
    fix transport
    assume h: "role (snd currentUser) \<noteq> Admin
          \<and> findById (sessions d) (req_sessionId body) = Some s \<and> isActive s
          \<and> parseInt (req_groupSize body) = Some g \<and> 1 \<le> g \<and> g \<le> 4
          \<and> occupied d (req_sessionId body) + g \<le> maxCapacity s
          \<and> b = preSave e d True (newBooking (req_sessionId body) (fst currentUser) g body)"
    then have c: "post_api_booking (e\<lparr>sendMail := transport\<rparr>) d currentUser body
       = (SuccessBooking (nextId d, b),
          d\<lparr>bookings := bookings d @ [(nextId d, b)], nextId := Suc (nextId d),
            users := (if req_isPackageBooking body
                      then findByIdAndUpdate (fst currentUser) (applyPackageBooking e s) (users d)
                      else users d)\<rparr>,
          [(BookingConfirmation, nextId d,
            if transport BookingConfirmation (nextId d) then Delivered else Rejected),
           (TrainerNotification, nextId d,
            if findById (users d) (createdBy s) = None then Threw
            else if transport TrainerNotification (nextId d) then Delivered else Rejected)])"
      by (intro create) simp_all
    show "post_api_booking (e\<lparr>sendMail := transport\<rparr>) d currentUser body
       = (SuccessBooking (nextId d, b),
          d\<lparr>bookings := bookings d @ [(nextId d, b)], nextId := Suc (nextId d),
            users := (if req_isPackageBooking body
                      then findByIdAndUpdate (fst currentUser) (applyPackageBooking e s) (users d)
                      else users d)\<rparr>,
          [(BookingConfirmation, nextId d,
            if transport BookingConfirmation (nextId d) then Delivered else Rejected),
           (TrainerNotification, nextId d,
            if findById (users d) (createdBy s) = None then Threw
            else if transport TrainerNotification (nextId d) then Delivered else Rejected)])"
      by (rule c)
    show "findById (bookings (fst (snd
            (post_api_booking (e\<lparr>sendMail := transport\<rparr>) d currentUser body)))) (nextId d) = Some b"
      unfolding c using stored by simp
  next
    fix transport
    assume h: "findById (bookings d) bid = Some bk
          \<and> (role (snd actor) = Admin
               \<or> client bk = fst actor \<and> \<not> pastDeadline (now e) (cancellationDeadline bk))
          \<and> findById (users d) (client bk) = Some c"
    then have c: "delete_api_booking (e\<lparr>sendMail := transport\<rparr>) d actor bid
       = (Success,
          d\<lparr>bookings := findByIdAndDelete bid (bookings d),
            users := (if isPackageBooking bk
                      then findByIdAndUpdate (client bk) applyPackageCancellation (users d)
                      else users d)\<rparr>,
          [(CancellationNotification, bid,
            if findById (sessions d) (session bk) = None then Threw
            else if transport CancellationNotification bid then Delivered else Rejected)])"
      by (intro cancel) simp_all
    show "delete_api_booking (e\<lparr>sendMail := transport\<rparr>) d actor bid
       = (Success,
          d\<lparr>bookings := findByIdAndDelete bid (bookings d),
            users := (if isPackageBooking bk
                      then findByIdAndUpdate (client bk) applyPackageCancellation (users d)
                      else users d)\<rparr>,
          [(CancellationNotification, bid,
            if findById (sessions d) (session bk) = None then Threw
            else if transport CancellationNotification bid then Delivered else Rejected)])"
      by (rule c)
    show "findById (bookings (fst (snd
            (delete_api_booking (e\<lparr>sendMail := transport\<rparr>) d actor bid)))) bid = None"
      unfolding c using gone by simp
    show "findById (users (fst (snd
            (delete_api_booking (e\<lparr>sendMail := transport\<rparr>) d actor bid)))) (client bk)
          = Some (if isPackageBooking bk then c\<lparr>activeSessions := activeSessions c - 1\<rparr> else c)"
      unfolding c using counter h by simp
  qed
qed

theorem notification_failure_isolated_witness:
  "post_api_booking (ex_env\<lparr>sendMail := (\<lambda>t k. False)\<rparr>) ex_db ex_alice (ex_request ''1'' False)
     = (SuccessBooking (22, ex_booking 11 1 False),
        ex_db\<lparr>bookings := bookings ex_db @ [(22, ex_booking 11 1 False)], nextId := 23\<rparr>,
        [(BookingConfirmation, 22, Rejected), (TrainerNotification, 22, Rejected)])
   \<and> findById (bookings (fst (snd (post_api_booking (ex_env\<lparr>sendMail := (\<lambda>t k. False)\<rparr>)
         ex_db ex_alice (ex_request ''1'' False))))) 22 = Some (ex_booking 11 1 False)
   \<and> post_api_booking (ex_env\<lparr>sendMail := (\<lambda>t k. True)\<rparr>) ex_db_no_trainer ex_alice
        (ex_request ''1'' False)
     = (SuccessBooking (22, ex_booking 11 1 False),
        ex_db_no_trainer\<lparr>bookings := bookings ex_db @ [(22, ex_booking 11 1 False)], nextId := 23\<rparr>,
        [(BookingConfirmation, 22, Delivered), (TrainerNotification, 22, Threw)])
   \<and> findById (bookings (fst (snd (post_api_booking (ex_env\<lparr>sendMail := (\<lambda>t k. True)\<rparr>)
         ex_db_no_trainer ex_alice (ex_request ''1'' False))))) 22 = Some (ex_booking 11 1 False)
   \<and> findById (bookings ex_db) 21 = Some (ex_booking 13 1 True)
   \<and> findById (users ex_db) 13 = Some (snd ex_bob)
   \<and> activeSessions (snd ex_bob) = 5
   \<and> fst (delete_api_booking (ex_env\<lparr>sendMail := (\<lambda>t k. False)\<rparr>) ex_db ex_tom 21) = Success
   \<and> snd (snd (delete_api_booking (ex_env\<lparr>sendMail := (\<lambda>t k. False)\<rparr>) ex_db ex_tom 21))
       = [(CancellationNotification, 21, Rejected)]
   \<and> findById (bookings (fst (snd
         (delete_api_booking (ex_env\<lparr>sendMail := (\<lambda>t k. False)\<rparr>) ex_db ex_tom 21)))) 21 = None
   \<and> findById (users (fst (snd
         (delete_api_booking (ex_env\<lparr>sendMail := (\<lambda>t k. False)\<rparr>) ex_db ex_tom 21)))) 13
       = Some ((snd ex_bob)\<lparr>activeSessions := 4\<rparr>)
   \<and> fst (delete_api_booking (ex_env\<lparr>sendMail := (\<lambda>t k. True)\<rparr>) ex_db_no_session ex_bob 21)
       = Success
   \<and> snd (snd (delete_api_booking (ex_env\<lparr>sendMail := (\<lambda>t k. True)\<rparr>) ex_db_no_session
         ex_bob 21))
       = [(CancellationNotification, 21, Threw)]
   \<and> findById (bookings (fst (snd
         (delete_api_booking (ex_env\<lparr>sendMail := (\<lambda>t k. True)\<rparr>) ex_db_no_session ex_bob 21))))
        21 = None
   \<and> findById (users (fst (snd
         (delete_api_booking (ex_env\<lparr>sendMail := (\<lambda>t k. True)\<rparr>) ex_db_no_session ex_bob 21))))
        13 = Some ((snd ex_bob)\<lparr>activeSessions := 4\<rparr>)"
proof -
  let ?rej = "\<lambda>(t :: template) (k :: nat). False"
  let ?acc = "\<lambda>(t :: template) (k :: nat). True"
  let ?body = "ex_request ''1'' False"
  \<comment> \<open>creation, the transport rejects both mails\<close>
  have c1: "role (snd ex_alice) \<noteq> Admin
      \<and> findById (sessions ex_db) (req_sessionId ?body) = Some ex_session \<and> isActive ex_session
      \<and> parseInt (req_groupSize ?body) = Some 1 \<and> (1::int) \<le> 1 \<and> (1::int) \<le> 4
      \<and> occupied ex_db (req_sessionId ?body) + 1 \<le> maxCapacity ex_session
      \<and> ex_booking 11 1 False
          = preSave ex_env ex_db True (newBooking (req_sessionId ?body) (fst ex_alice) 1 ?body)"
    using ex_findSession ex_occupied ex_preSave [of ex_db False]
    by (simp add: ex_request_def parseInt_examples ex_alice_def ex_session_def)
  from notification_failure_isolated [OF ex_uniqueIds, THEN conjunct1, rule_format, OF c1, of ?rej]
  have A: "post_api_booking (ex_env\<lparr>sendMail := ?rej\<rparr>) ex_db ex_alice ?body
     = (SuccessBooking (22, ex_booking 11 1 False),
        ex_db\<lparr>bookings := bookings ex_db @ [(22, ex_booking 11 1 False)], nextId := 23\<rparr>,
        [(BookingConfirmation, 22, Rejected), (TrainerNotification, 22, Rejected)])"
    "findById (bookings (fst (snd (post_api_booking (ex_env\<lparr>sendMail := ?rej\<rparr>)
         ex_db ex_alice ?body)))) 22 = Some (ex_booking 11 1 False)"
    by (simp_all add: ex_request_def ex_db_def ex_session_def findById_def ex_tom_def ex_alice_def)
  \<comment> \<open>creation, the trainer's document is missing and the template throws\<close>
  have u2: "uniqueIds ex_db_no_trainer"
    using ex_uniqueIds by (simp add: uniqueIds_def ex_db_no_trainer_def)
  have c2: "role (snd ex_alice) \<noteq> Admin
      \<and> findById (sessions ex_db_no_trainer) (req_sessionId ?body) = Some ex_session
      \<and> isActive ex_session
      \<and> parseInt (req_groupSize ?body) = Some 1 \<and> (1::int) \<le> 1 \<and> (1::int) \<le> 4
      \<and> occupied ex_db_no_trainer (req_sessionId ?body) + 1 \<le> maxCapacity ex_session
      \<and> ex_booking 11 1 False
          = preSave ex_env ex_db_no_trainer True
              (newBooking (req_sessionId ?body) (fst ex_alice) 1 ?body)"
    using ex_findSession ex_occupied ex_preSave [of ex_db_no_trainer False]
    by (simp add: ex_request_def parseInt_examples ex_alice_def ex_session_def
        ex_db_no_trainer_def occupied_def confirmedBookings_def)
  from notification_failure_isolated [OF u2, THEN conjunct1, rule_format, OF c2, of ?acc]
  have B: "post_api_booking (ex_env\<lparr>sendMail := ?acc\<rparr>) ex_db_no_trainer ex_alice ?body
     = (SuccessBooking (22, ex_booking 11 1 False),
        ex_db_no_trainer\<lparr>bookings := bookings ex_db @ [(22, ex_booking 11 1 False)], nextId := 23\<rparr>,
        [(BookingConfirmation, 22, Delivered), (TrainerNotification, 22, Threw)])"
    "findById (bookings (fst (snd (post_api_booking (ex_env\<lparr>sendMail := ?acc\<rparr>)
         ex_db_no_trainer ex_alice ?body)))) 22 = Some (ex_booking 11 1 False)"
    by (simp_all add: ex_request_def ex_db_no_trainer_def ex_db_def ex_session_def findById_def
        ex_alice_def ex_bob_def)
  \<comment> \<open>cancellation by the admin, the transport rejects the mail\<close>
  have f: "findById (bookings ex_db) 21 = Some (ex_booking 13 1 True)"
    "findById (users ex_db) 13 = Some (snd ex_bob)" "activeSessions (snd ex_bob) = 5"
    by (simp_all add: findById_def ex_db_def ex_alice_def ex_tom_def ex_bob_def)
  have c3: "findById (bookings ex_db) 21 = Some (ex_booking 13 1 True)
      \<and> (role (snd ex_tom) = Admin
           \<or> client (ex_booking 13 1 True) = fst ex_tom
              \<and> \<not> pastDeadline (now ex_env) (cancellationDeadline (ex_booking 13 1 True)))
      \<and> findById (users ex_db) (client (ex_booking 13 1 True)) = Some (snd ex_bob)"
    using f by (simp add: ex_tom_admin ex_booking_def)
  note T3 = notification_failure_isolated
                [OF ex_uniqueIds, THEN conjunct2, rule_format, OF c3, of ?rej]
  have C: "fst (delete_api_booking (ex_env\<lparr>sendMail := ?rej\<rparr>) ex_db ex_tom 21) = Success"
    "snd (snd (delete_api_booking (ex_env\<lparr>sendMail := ?rej\<rparr>) ex_db ex_tom 21))
       = [(CancellationNotification, 21, Rejected)]"
    "findById (bookings (fst (snd
         (delete_api_booking (ex_env\<lparr>sendMail := ?rej\<rparr>) ex_db ex_tom 21)))) 21 = None"
    "findById (users (fst (snd
         (delete_api_booking (ex_env\<lparr>sendMail := ?rej\<rparr>) ex_db ex_tom 21)))) 13
       = Some ((snd ex_bob)\<lparr>activeSessions := 4\<rparr>)"
    using T3 [THEN conjunct1] ex_findSession apply (simp add: ex_booking_def)
    using T3 [THEN conjunct1] ex_findSession apply (simp add: ex_booking_def)
    using T3 [THEN conjunct2, THEN conjunct1] apply simp
    using T3 [THEN conjunct2, THEN conjunct2] apply (simp add: ex_booking_def f(3))
    done
  \<comment> \<open>cancellation by the client, the session's document is missing and the template throws\<close>
  have u4: "uniqueIds ex_db_no_session"
    using ex_uniqueIds by (simp add: uniqueIds_def ex_db_no_session_def)
  have c4: "findById (bookings ex_db_no_session) 21 = Some (ex_booking 13 1 True)
      \<and> (role (snd ex_bob) = Admin
           \<or> client (ex_booking 13 1 True) = fst ex_bob
              \<and> \<not> pastDeadline (now ex_env) (cancellationDeadline (ex_booking 13 1 True)))
      \<and> findById (users ex_db_no_session) (client (ex_booking 13 1 True)) = Some (snd ex_bob)"
    using f by (simp add: ex_db_no_session_def ex_booking_def ex_bob_def pastDeadline_def
        ex_env_def)
  note T4 = notification_failure_isolated [OF u4, THEN conjunct2, rule_format, OF c4, of ?acc]
  have D: "fst (delete_api_booking (ex_env\<lparr>sendMail := ?acc\<rparr>) ex_db_no_session ex_bob 21)
       = Success"
    "snd (snd (delete_api_booking (ex_env\<lparr>sendMail := ?acc\<rparr>) ex_db_no_session ex_bob 21))
       = [(CancellationNotification, 21, Threw)]"
    "findById (bookings (fst (snd
         (delete_api_booking (ex_env\<lparr>sendMail := ?acc\<rparr>) ex_db_no_session ex_bob 21)))) 21 = None"
    "findById (users (fst (snd
         (delete_api_booking (ex_env\<lparr>sendMail := ?acc\<rparr>) ex_db_no_session ex_bob 21)))) 13
       = Some ((snd ex_bob)\<lparr>activeSessions := 4\<rparr>)"
    using T4 [THEN conjunct1] apply (simp add: ex_booking_def ex_db_no_session_def findById_def)
    using T4 [THEN conjunct1] apply (simp add: ex_booking_def ex_db_no_session_def findById_def)
    using T4 [THEN conjunct2, THEN conjunct1] apply simp
    using T4 [THEN conjunct2, THEN conjunct2] apply (simp add: ex_booking_def f(3))
    done
  from A B f C D show ?thesis by simp
qed

end
